theory Spec2Isabelle
  imports Main "HOL-Library.Log_Nat"
begin

section \<open>JavaScript values used by the OBS wrapper\<close>

text \<open>
  Strings are byte strings, a path being in UTF-8. \<open>String.prototype.toLowerCase\<close> is a
  function of the runtime: the functions below that call it take it as the argument
  \<open>toLowerCase\<close>, and what is proved of them is proved for every such function.

  \<open>toLowerCase_ascii\<close> is that function on the strings of ASCII characters, where it
  maps \<open>A\<close> to \<open>Z\<close> to \<open>a\<close> to \<open>z\<close> and keeps every other character. It stands for the
  runtime's function on such strings only: on the extensions of the table and on the
  ASCII paths of the examples. Outside ASCII the runtime's function does more (it maps
  KELVIN SIGN, U+212A, to \<open>k\<close>), and no function of the wrapper is defined with
  \<open>toLowerCase_ascii\<close>.
\<close>

definition toLowerCase_ascii_char :: "char \<Rightarrow> char" where
  "toLowerCase_ascii_char c =
     (case map_of (zip ''ABCDEFGHIJKLMNOPQRSTUVWXYZ'' ''abcdefghijklmnopqrstuvwxyz'') c of
        Some l \<Rightarrow> l
      | None \<Rightarrow> c)"

definition toLowerCase_ascii :: "string \<Rightarrow> string" where
  "toLowerCase_ascii s = map toLowerCase_ascii_char s"

text \<open>\<open>s.split(sep)\<close> for a one-character separator: never the empty array.\<close>

fun split_acc :: "char \<Rightarrow> string \<Rightarrow> string \<Rightarrow> string list" where
  "split_acc sep cur [] = [rev cur]"
| "split_acc sep cur (c # cs) =
     (if c = sep then rev cur # split_acc sep [] cs else split_acc sep (c # cur) cs)"

definition split :: "string \<Rightarrow> char \<Rightarrow> string list" where
  "split s sep = split_acc sep [] s"

text \<open>\<open>xs.splice(-1)\<close> returns the removed elements: the last one, if there is one.\<close>

definition splice_last :: "'a list \<Rightarrow> 'a list" where
  "splice_last xs = (if xs = [] then [] else [last xs])"

text \<open>\<open>xs[0]\<close>: \<open>None\<close> stands for \<open>undefined\<close>.\<close>

definition index0 :: "'a list \<Rightarrow> 'a option" where
  "index0 xs = (case xs of [] \<Rightarrow> None | x # _ \<Rightarrow> Some x)"

definition js_includes :: "'a list \<Rightarrow> 'a \<Rightarrow> bool" where
  "js_includes xs x = (x \<in> set xs)"

text \<open>
  Numbers are IEEE 754 binary64 values: a finite one is the rational it denotes. The
  sign of zero is not represented.
\<close>

datatype jsnum = Fin rat | PosInf | NegInf | NaN

datatype jsval = JUndefined | JNull | JBool bool | JNum jsnum | JStr string

text \<open>An object literal, its properties in the order they are written.\<close>

type_synonym jsobject = "(string \<times> jsval) list"

datatype js_error = Error string | TypeError string | SystemError string

text \<open>
  Rounding to the nearest binary64 value, ties to even. \<open>binade a\<close> is the exponent
  \<open>e\<close> with \<open>2^e \<le> a < 2^(e+1)\<close>, for \<open>a > 0\<close>; below \<open>2^-1022\<close> the spacing is that
  of the subnormal numbers; a result of \<open>2^1024\<close> or more is an infinity.
\<close>

definition pow2 :: "int \<Rightarrow> rat" where
  "pow2 e = (if 0 \<le> e then 2 ^ nat e else 1 / 2 ^ nat (- e))"

definition binade :: "rat \<Rightarrow> int" where
  "binade a =
     (if 1 \<le> a then bitlen \<lfloor>a\<rfloor> - 1 else - bitlen (\<lceil>1 / a\<rceil> - 1))"

definition round_half_even :: "rat \<Rightarrow> int" where
  "round_half_even q =
     (let f = \<lfloor>q\<rfloor>; d = q - of_int f
      in if d < 1 / 2 then f else if 1 / 2 < d then f + 1 else if even f then f else f + 1)"

definition to_double :: "rat \<Rightarrow> jsnum" where
  "to_double r =
     (if r = 0 then Fin 0
      else
        let a = \<bar>r\<bar>;
            e = max (binade a) (- 1022);
            ulp = pow2 (e - 52);
            m = of_int (round_half_even (a / ulp)) * ulp
        in if pow2 1024 \<le> m then (if 0 < r then PosInf else NegInf)
           else Fin (if 0 < r then m else - m))"

text \<open>The arithmetic operators on numbers; a zero divisor is \<open>+0\<close>.\<close>

fun js_div :: "jsnum \<Rightarrow> jsnum \<Rightarrow> jsnum" where
  "js_div NaN _ = NaN"
| "js_div _ NaN = NaN"
| "js_div (Fin a) (Fin b) =
     (if b = 0 then (if a = 0 then NaN else if 0 < a then PosInf else NegInf)
      else to_double (a / b))"
| "js_div (Fin a) PosInf = Fin 0"
| "js_div (Fin a) NegInf = Fin 0"
| "js_div PosInf (Fin b) = (if 0 \<le> b then PosInf else NegInf)"
| "js_div NegInf (Fin b) = (if 0 \<le> b then NegInf else PosInf)"
| "js_div PosInf PosInf = NaN"
| "js_div PosInf NegInf = NaN"
| "js_div NegInf PosInf = NaN"
| "js_div NegInf NegInf = NaN"

fun js_mul :: "jsnum \<Rightarrow> jsnum \<Rightarrow> jsnum" where
  "js_mul NaN _ = NaN"
| "js_mul _ NaN = NaN"
| "js_mul (Fin a) (Fin b) = to_double (a * b)"
| "js_mul (Fin a) PosInf = (if a = 0 then NaN else if 0 < a then PosInf else NegInf)"
| "js_mul (Fin a) NegInf = (if a = 0 then NaN else if 0 < a then NegInf else PosInf)"
| "js_mul PosInf (Fin b) = (if b = 0 then NaN else if 0 < b then PosInf else NegInf)"
| "js_mul NegInf (Fin b) = (if b = 0 then NaN else if 0 < b then NegInf else PosInf)"
| "js_mul PosInf PosInf = PosInf"
| "js_mul PosInf NegInf = NegInf"
| "js_mul NegInf PosInf = NegInf"
| "js_mul NegInf NegInf = PosInf"

fun js_sub :: "jsnum \<Rightarrow> jsnum \<Rightarrow> jsnum" where
  "js_sub NaN _ = NaN"
| "js_sub _ NaN = NaN"
| "js_sub (Fin a) (Fin b) = to_double (a - b)"
| "js_sub (Fin a) PosInf = NegInf"
| "js_sub (Fin a) NegInf = PosInf"
| "js_sub PosInf (Fin b) = PosInf"
| "js_sub NegInf (Fin b) = NegInf"
| "js_sub PosInf PosInf = NaN"
| "js_sub PosInf NegInf = PosInf"
| "js_sub NegInf PosInf = NegInf"
| "js_sub NegInf NegInf = NaN"

text \<open>\<open>Math.floor\<close>: the floor of a binary64 value is one.\<close>

fun Math_floor :: "jsnum \<Rightarrow> jsnum" where
  "Math_floor (Fin a) = Fin (of_int \<lfloor>a\<rfloor>)"
| "Math_floor n = n"

text \<open>A pixel count as a number.\<close>

definition num :: "nat \<Rightarrow> jsnum" where
  "num n = Fin (of_nat n)"

text \<open>
  \<open>a == b\<close> on primitive values. \<open>StringToNumber\<close> is the runtime's conversion of a
  string to a number, used when a string meets a number or a boolean.
\<close>

definition num_eq :: "jsnum \<Rightarrow> jsnum \<Rightarrow> bool" where
  "num_eq a b = (a \<noteq> NaN \<and> a = b)"

definition bool_num :: "bool \<Rightarrow> jsnum" where
  "bool_num b = Fin (if b then 1 else 0)"

fun js_loose_eq :: "(string \<Rightarrow> jsnum) \<Rightarrow> jsval \<Rightarrow> jsval \<Rightarrow> bool" where
  "js_loose_eq tn JUndefined JUndefined = True"
| "js_loose_eq tn JUndefined JNull = True"
| "js_loose_eq tn JNull JUndefined = True"
| "js_loose_eq tn JNull JNull = True"
| "js_loose_eq tn (JNum a) (JNum b) = num_eq a b"
| "js_loose_eq tn (JStr a) (JStr b) = (a = b)"
| "js_loose_eq tn (JBool a) (JBool b) = (a = b)"
| "js_loose_eq tn (JNum a) (JStr b) = num_eq a (tn b)"
| "js_loose_eq tn (JStr a) (JNum b) = num_eq (tn a) b"
| "js_loose_eq tn (JBool a) (JNum b) = num_eq (bool_num a) b"
| "js_loose_eq tn (JBool a) (JStr b) = num_eq (bool_num a) (tn b)"
| "js_loose_eq tn (JNum a) (JBool b) = num_eq a (bool_num b)"
| "js_loose_eq tn (JStr a) (JBool b) = num_eq (tn a) (bool_num b)"
| "js_loose_eq tn _ _ = False"

text \<open>\<open>typeof v\<close>.\<close>

fun js_typeof :: "jsval \<Rightarrow> string" where
  "js_typeof JUndefined = ''undefined''"
| "js_typeof JNull = ''object''"
| "js_typeof (JBool b) = ''boolean''"
| "js_typeof (JNum n) = ''number''"
| "js_typeof (JStr s) = ''string''"

text \<open>\<open>n.toString()\<close> for an integer \<open>n\<close> (below \<open>10^21\<close> in size): decimal digits.\<close>

definition digit_char :: "nat \<Rightarrow> char" where
  "digit_char d = ''0123456789'' ! d"

fun digits_of :: "nat \<Rightarrow> string" where
  "digits_of n = (if n < 10 then [digit_char n] else digits_of (n div 10) @ [digit_char (n mod 10)])"

declare digits_of.simps [simp del]

definition number_toString :: "int \<Rightarrow> string" where
  "number_toString i = (if i < 0 then ''-'' @ digits_of (nat (- i)) else digits_of (nat i))"

section \<open>The table of supported files\<close>

record SupportedFileType =
  extensions :: "string list"
  prettyName :: string
  obsName :: string

definition supportedFiles :: "SupportedFileType list" where
  "supportedFiles =
    [ \<lparr> extensions = [''png'', ''jpg'', ''jpeg'', ''tga'', ''bmp''],
        prettyName = ''Image files'',
        obsName = ''image_source'' \<rparr>,
      \<lparr> extensions = [''mp4'', ''ts'', ''mov'', ''flv'', ''mkv'', ''avi'', ''mp3'', ''ogg'',
                      ''aac'', ''wav'', ''gif'', ''webm''],
        prettyName = ''Video files'',
        obsName = ''ffmpeg_source'' \<rparr>,
      \<lparr> extensions = [''txt''],
        prettyName = ''Text files'',
        obsName = ''text_gdiplus'' \<rparr>,
      \<lparr> extensions = [''html''],
        prettyName = ''HTML files'',
        obsName = ''browser_source'' \<rparr> ]"

section \<open>The OBS wrapper: state and effects\<close>

text \<open>
  What the wrapper does to the engine, the console and the timer queue is recorded
  as a trace of calls, in the order they are made. Engine calls are taken to return
  normally, except where a function of the wrapper catches what they throw.
\<close>

record IInput =
  inputType :: string
  inputId :: string
  inputSettings :: jsobject

text \<open>A settings container, as \<open>OBS_settings_getSettings(category).data\<close> returns it.\<close>

record Parameter =
  name :: string
  currentValue :: jsval

record SubCategory =
  nameSubCategory :: string
  parameters :: "Parameter list"

datatype event =
    InputFactory_create string string jsobject
  | SceneFactory_create string
  | Scene_add string string
  | Console_log_sceneItem string string
  | SetTimeout_transitionTo nat string
  | Console_debug string
  | Console_error string string
  | IPC_host string
  | SetWorkingDirectory
  | OBS_API_initAPI
  | OBS_service_connectOutputSignals
  | OBS_service_removeCallback
  | IPC_disconnect
  | previewWindow_close
  | OBS_settings_saveSettings string "SubCategory list"

text \<open>
  The wrapper object. \<open>previewWindow\<close> says whether the projector window exists;
  \<open>settingsStore\<close> holds the numeric keys of the store (\<open>width\<close>, \<open>height\<close>).
\<close>

type_synonym Store = "string \<Rightarrow> nat"

definition Store_get :: "Store \<Rightarrow> string \<Rightarrow> nat" where
  "Store_get store key = store key"

record OBS =
  obsInitialized :: bool
  previewWindow :: bool
  settingsStore :: Store
  trace :: "event list"

definition emit :: "event list \<Rightarrow> 'b OBS_scheme \<Rightarrow> 'b OBS_scheme" where
  "emit evs this = this\<lparr> trace := trace this @ evs \<rparr>"

record Slide =
  filePath :: string

subsection \<open>addFile\<close>

text \<open>The chain of comparisons on \<open>type.obsName\<close>; \<open>None\<close> is \<open>settings = null\<close>.\<close>

definition addFile_settings :: "string \<Rightarrow> string \<Rightarrow> jsobject option" where
  "addFile_settings ty fp =
     (if ty = ''image_source'' then Some [(''file'', JStr fp)]
      else if ty = ''browser_source'' then
        Some [(''is_local_file'', JBool True), (''local_file'', JStr fp)]
      else if ty = ''ffmpeg_source'' then
        Some [(''is_local_file'', JBool True), (''local_file'', JStr fp), (''looping'', JBool True)]
      else if ty = ''text_gdiplus'' then
        Some [(''read_from_file'', JBool True), (''file'', JStr fp)]
      else None)"

text \<open>
  The loop \<open>for (const type of supportedFiles)\<close>, up to the point where a settings
  object exists: the entry that is used and its settings.
\<close>

fun addFile_scan :: "SupportedFileType list \<Rightarrow> string \<Rightarrow> string \<Rightarrow> (string \<times> jsobject) option" where
  "addFile_scan [] ext fp = None"
| "addFile_scan (t # ts) ext fp =
     (if \<not> js_includes (extensions t) ext then addFile_scan ts ext fp
      else case addFile_settings (obsName t) fp of
             None \<Rightarrow> addFile_scan ts ext fp
           | Some settings \<Rightarrow> Some (obsName t, settings))"

text \<open>\<open>ext\<close> as \<open>addFile\<close> computes it from the resolved path, before lowercasing.\<close>

definition path_ext :: "string \<Rightarrow> string option" where
  "path_ext realpath = index0 (splice_last (split realpath (CHR ''.'')))"

text \<open>
  The part of \<open>addFile\<close> before any engine call. \<open>toLowerCase\<close> is the runtime's
  function on strings; \<open>realpathSync\<close> is the file system's answer (it throws for a path
  that does not resolve).
\<close>

definition addFile_dispatch ::
  "(string \<Rightarrow> string) \<Rightarrow> (string \<Rightarrow> js_error + string) \<Rightarrow> 'a Slide_scheme
     \<Rightarrow> js_error + (string \<times> jsobject) option" where
  "addFile_dispatch toLowerCase realpathSync slide =
     (case realpathSync (filePath slide) of
        Inl e \<Rightarrow> Inl e
      | Inr realpath \<Rightarrow>
          (case path_ext realpath of
             None \<Rightarrow> Inr None
           | Some ext0 \<Rightarrow>
               if ext0 = [] then Inr None
               else Inr (addFile_scan supportedFiles (toLowerCase ext0) (filePath slide))))"

text \<open>\<open>createSource\<close> with its default \<open>options = {}\<close>; \<open>uuid\<close> is what \<open>uuid()\<close> returns.\<close>

definition createSource :: "string \<Rightarrow> string \<Rightarrow> string \<Rightarrow> jsobject \<Rightarrow> IInput \<times> event list" where
  "createSource uuid nm ty settings =
     (let ident = ty @ ''_'' @ uuid
      in (\<lparr> inputType = ty, inputId = ident, inputSettings = settings \<rparr>,
          [InputFactory_create ty ident settings]))"

text \<open>
  \<open>addFile\<close>: \<open>Inr None\<close> is the result \<open>null\<close>. \<open>random\<close> is
  \<open>Math.random().toString()\<close>. The timer is recorded when it is set, with its delay.
  (The local \<open>filename\<close> is computed and never read.)
\<close>

definition addFile ::
  "(string \<Rightarrow> string) \<Rightarrow> (string \<Rightarrow> js_error + string) \<Rightarrow> string \<Rightarrow> string
     \<Rightarrow> 'b OBS_scheme \<Rightarrow> 'a Slide_scheme \<Rightarrow> (js_error + IInput option) \<times> 'b OBS_scheme" where
  "addFile toLowerCase realpathSync uuid random this slide =
     (case addFile_dispatch toLowerCase realpathSync slide of
        Inl e \<Rightarrow> (Inl e, this)
      | Inr None \<Rightarrow> (Inr None, this)
      | Inr (Some (ty, settings)) \<Rightarrow>
          (let (s, created) = createSource uuid ''sourceId'' ty settings;
               sceneId = random
           in (Inr (Some s),
               emit (created @
                 [SceneFactory_create sceneId,
                  Scene_add sceneId (inputId s),
                  Console_log_sceneItem sceneId (inputId s),
                  SetTimeout_transitionTo 1000 sceneId]) this)))"

subsection \<open>addFile of the older wrapper\<close>

text \<open>\<open>SUPPORTED_EXT\<close>, its keys in the order \<open>Object.keys\<close> lists them.\<close>

definition SUPPORTED_EXT :: "(string \<times> string list) list" where
  "SUPPORTED_EXT =
    [ (''image_source'', [''png'', ''jpg'', ''jpeg'', ''tga'', ''bmp'']),
      (''ffmpeg_source'', [''mp4'', ''ts'', ''mov'', ''flv'', ''mkv'', ''avi'', ''mp3'', ''ogg'',
                          ''aac'', ''wav'', ''gif'', ''webm'']),
      (''browser_source'', [''html'']),
      (''text_gdiplus'', [''txt'']) ]"

fun addFile_legacy_scan :: "(string \<times> string list) list \<Rightarrow> string \<Rightarrow> string \<Rightarrow> (string \<times> jsobject) option" where
  "addFile_legacy_scan [] ext fp = None"
| "addFile_legacy_scan ((ty, exts) # rest) ext fp =
     (if \<not> js_includes exts ext then addFile_legacy_scan rest ext fp
      else case addFile_settings ty fp of
             None \<Rightarrow> addFile_legacy_scan rest ext fp
           | Some settings \<Rightarrow> Some (ty, settings))"

definition addFile_legacy_dispatch ::
  "(string \<Rightarrow> string) \<Rightarrow> (string \<Rightarrow> js_error + string) \<Rightarrow> string
     \<Rightarrow> js_error + (string \<times> jsobject) option" where
  "addFile_legacy_dispatch toLowerCase realpathSync path =
     (case realpathSync path of
        Inl e \<Rightarrow> Inl e
      | Inr realpath \<Rightarrow>
          (case path_ext realpath of
             None \<Rightarrow> Inr None
           | Some ext0 \<Rightarrow>
               if ext0 = [] then Inr None
               else Inr (addFile_legacy_scan SUPPORTED_EXT (toLowerCase ext0) path)))"

definition all_extensions :: "string list" where
  "all_extensions = concat (map extensions supportedFiles)"

subsection \<open>setSetting\<close>

text \<open>
  The two nested \<open>forEach\<close> loops: every parameter with the given name gets the new
  value, and \<open>oldValue\<close> ends as the value the last of them had.
\<close>

fun parameters_forEach :: "string \<Rightarrow> jsval \<Rightarrow> Parameter list \<Rightarrow> jsval \<Rightarrow> Parameter list \<times> jsval" where
  "parameters_forEach parameter v [] oldValue = ([], oldValue)"
| "parameters_forEach parameter v (param # rest) oldValue =
     (if name param = parameter then
        (let (rest', oldValue') = parameters_forEach parameter v rest (currentValue param)
         in (param\<lparr> currentValue := v \<rparr> # rest', oldValue'))
      else
        (let (rest', oldValue') = parameters_forEach parameter v rest oldValue
         in (param # rest', oldValue')))"

fun settings_forEach :: "string \<Rightarrow> jsval \<Rightarrow> SubCategory list \<Rightarrow> jsval \<Rightarrow> SubCategory list \<times> jsval" where
  "settings_forEach parameter v [] oldValue = ([], oldValue)"
| "settings_forEach parameter v (subCategory # rest) oldValue =
     (let (params', oldValue') = parameters_forEach parameter v (parameters subCategory) oldValue;
          (rest', oldValue'') = settings_forEach parameter v rest oldValue'
      in (subCategory\<lparr> parameters := params' \<rparr> # rest', oldValue''))"

text \<open>
  \<open>OBS_settings_getSettings\<close> is the engine's answer for a category; \<open>None\<close> is a
  missing \<open>data\<close>, on which \<open>forEach\<close> throws.
\<close>

definition setSetting ::
  "(string \<Rightarrow> SubCategory list option) \<Rightarrow> (string \<Rightarrow> jsnum) \<Rightarrow> 'b OBS_scheme
     \<Rightarrow> string \<Rightarrow> string \<Rightarrow> jsval \<Rightarrow> (js_error + unit) \<times> 'b OBS_scheme" where
  "setSetting OBS_settings_getSettings StringToNumber this category parameter v =
     (case OBS_settings_getSettings category of
        None \<Rightarrow> (Inl (TypeError ''Cannot read properties of undefined (reading forEach)''), this)
      | Some settings \<Rightarrow>
          (let (settings', oldValue) = settings_forEach parameter v settings JUndefined
           in if \<not> js_loose_eq StringToNumber v oldValue
              then (Inr (), emit [OBS_settings_saveSettings category settings'] this)
              else (Inr (), this)))"

text \<open>The parameters of a container that carry a given name, in the order the loops visit them.\<close>

definition parameters_named :: "string \<Rightarrow> SubCategory list \<Rightarrow> Parameter list" where
  "parameters_named parameter settings =
     filter (\<lambda>param. name param = parameter) (concat (map parameters settings))"

text \<open>A container with every parameter of a given name set to a value.\<close>

definition with_value :: "string \<Rightarrow> jsval \<Rightarrow> SubCategory list \<Rightarrow> SubCategory list" where
  "with_value parameter v settings =
     map (\<lambda>subCategory. subCategory\<lparr> parameters :=
            map (\<lambda>param. if name param = parameter then param\<lparr> currentValue := v \<rparr> else param)
              (parameters subCategory) \<rparr>) settings"

subsection \<open>shutdown and initOBS\<close>

text \<open>
  \<open>throws\<close> tells, for a native call, what it throws (as text), if it throws. Only the
  calls inside the \<open>try\<close> block of \<open>shutdown\<close> are asked.
\<close>

definition shutdown :: "(string \<Rightarrow> string option) \<Rightarrow> 'b OBS_scheme \<Rightarrow> (js_error + bool) \<times> 'b OBS_scheme" where
  "shutdown throws this =
     (if \<not> obsInitialized this then
        (Inr False, emit [Console_debug ''OBS is already shut down!''] this)
      else
        (let this1 = emit [Console_debug ''Shutting down OBS...'', OBS_service_removeCallback] this
         in case throws ''OBS_service_removeCallback'' of
              Some e \<Rightarrow> (Inl (Error (''Exception when shutting down OBS process'' @ e)), this1)
            | None \<Rightarrow>
                (let this2 = emit [IPC_disconnect] this1
                 in case throws ''IPC.disconnect'' of
                      Some e \<Rightarrow> (Inl (Error (''Exception when shutting down OBS process'' @ e)), this2)
                    | None \<Rightarrow>
                        (let this3 = emit [Console_debug ''OBS shutdown successfully'']
                                       (this2\<lparr> obsInitialized := False \<rparr>)
                         in if previewWindow this3
                            then (Inr True, emit [previewWindow_close] this3)
                            else (Inr True, this3)))))"

definition errorReasons :: "(string \<times> string) list" where
  "errorReasons =
    [ (''-2'', ''DirectX could not be found on your system. Please install the latest version of DirectX for your machine here <https://www.microsoft.com/en-us/download/details.aspx?id=35?> and try again.''),
      (''-5'', ''Failed to initialize OBS. Your video drivers may be out of date, or Streamlabs OBS may not be supported on your system.'') ]"

text \<open>\<open>errorReasons[key] || fallback\<close>: a missing or empty entry gives the fallback.\<close>

definition errorMessage_of :: "int \<Rightarrow> string" where
  "errorMessage_of initResult =
     (case map_of errorReasons (number_toString initResult) of
        Some reason \<Rightarrow>
          if reason \<noteq> [] then reason
          else ''An unknown error #'' @ number_toString initResult @ '' was encountered while initializing OBS.''
      | None \<Rightarrow>
          ''An unknown error #'' @ number_toString initResult @ '' was encountered while initializing OBS.'')"

text \<open>\<open>initResult\<close> is what \<open>OBS_API_initAPI\<close> returns.\<close>

definition initOBS :: "int \<Rightarrow> (string \<Rightarrow> string option) \<Rightarrow> 'b OBS_scheme \<Rightarrow> (js_error + unit) \<times> 'b OBS_scheme" where
  "initOBS initResult throws this =
     (let this1 = emit [Console_debug ''Initializing OBS...'',
                        IPC_host ''obs-studio-node-example'',
                        SetWorkingDirectory,
                        OBS_API_initAPI] this
      in if initResult \<noteq> 0 then
           (let errorMessage = errorMessage_of initResult;
                this2 = emit [Console_error ''OBS init failure'' errorMessage] this1
            in case shutdown throws this2 of
                 (Inl e, this3) \<Rightarrow> (Inl e, this3)
               | (Inr _, this3) \<Rightarrow> (Inl (Error errorMessage), this3))
         else
           (Inr (), emit [OBS_service_connectOutputSignals, Console_debug ''OBS initialized''] this1))"

section \<open>The mobile service\<close>

record Device =
  model :: string
  deviceType :: string
  os :: string
  osVersion :: string
  sdkVersion :: string
  language :: string
  manufacturer :: string
  uuid :: string
  region :: string

text \<open>An entry of \<open>connectedMobiles\<close>; the body of \<open>POST /connect\<close> has the same shape.\<close>

record ConnectedMobile =
  device :: Device

record DisconnectBody =
  deviceId :: string

record MobileService =
  connectedMobiles :: "ConnectedMobile list"
  expressRunning :: bool

text \<open>
  The handlers, on the parsed body \<open>req.jsonBody\<close>: \<open>None\<close> is the body \<open>null\<close> (an empty
  request), whose property cannot be read. The answer is what \<open>res.send\<close> is given.
\<close>

definition post_connect ::
  "'c ConnectedMobile_scheme option \<Rightarrow> 'a MobileService_scheme
     \<Rightarrow> (js_error + jsobject) \<times> 'a MobileService_scheme" where
  "post_connect jsonBody this =
     (case jsonBody of
        None \<Rightarrow> (Inl (TypeError ''Cannot read properties of null (reading device)''), this)
      | Some body \<Rightarrow>
          (Inr [(''success'', JBool True)],
           this\<lparr> connectedMobiles := connectedMobiles this @ [\<lparr> device = device body \<rparr>] \<rparr>))"

definition post_disconnect ::
  "'c DisconnectBody_scheme option \<Rightarrow> 'a MobileService_scheme
     \<Rightarrow> (js_error + jsobject) \<times> 'a MobileService_scheme" where
  "post_disconnect jsonBody this =
     (case jsonBody of
        None \<Rightarrow>
          (if connectedMobiles this = [] then (Inr [(''success'', JBool True)], this)
           else (Inl (TypeError ''Cannot read properties of null (reading deviceId)''), this))
      | Some body \<Rightarrow>
          (Inr [(''success'', JBool True)],
           this\<lparr> connectedMobiles :=
             filter (\<lambda>d. uuid (device d) \<noteq> deviceId body) (connectedMobiles this) \<rparr>))"

section \<open>The layout of a scene item\<close>

record ISource =
  width :: nat
  height :: nat

record Vec2 =
  x :: jsnum
  y :: jsnum

record ISceneItem =
  source :: ISource
  scale :: Vec2
  position :: Vec2

text \<open>
  \<open>alignItem\<close>: the canvas is \<open>width\<close> and \<open>height\<close> of the settings store, the native
  size of the item is that of its source; all are pixel counts. The options are not
  read.
\<close>

definition alignItem :: "'b OBS_scheme \<Rightarrow> 'a ISceneItem_scheme \<Rightarrow> 'o \<Rightarrow> 'a ISceneItem_scheme" where
  "alignItem this sceneItem options =
     (let w = Store_get (settingsStore this) ''width'';
          h = Store_get (settingsStore this) ''height'';
          smallestSide = (if w < h then w else h);
          sc = js_div (Math_floor (js_mul (js_div (num smallestSide) (num (width (source sceneItem))))
                                     (Fin 100)))
                 (Fin 100);
          item1 = sceneItem\<lparr> scale := \<lparr> x = sc, y = sc \<rparr> \<rparr>
      in if w < h then
           item1\<lparr> position :=
             \<lparr> x = Fin 0,
               y = js_div (js_sub (num h) (js_mul (num (height (source item1))) sc)) (Fin 2) \<rparr> \<rparr>
         else if h < w then
           item1\<lparr> position :=
             \<lparr> x = js_div (js_sub (num w) (js_mul (num (width (source item1))) sc)) (Fin 2),
               y = Fin 0 \<rparr> \<rparr>
         else item1)"

section \<open>Properties of the extension dispatch\<close>

lemma split_acc_not_Nil: "split_acc sep cur s \<noteq> []"
  by (induction s arbitrary: cur) auto

lemma last_split_acc:
  "last (split_acc sep cur s) =
     (if sep \<in> set s then rev (takeWhile (\<lambda>c. c \<noteq> sep) (rev s)) else rev cur @ s)"
proof (induction s arbitrary: cur)
  case Nil
  then show ?case by simp
next
  case (Cons c cs)
  show ?case
  proof (cases "c = sep")
    case True
    then show ?thesis
      using Cons.IH [of "[]"] split_acc_not_Nil [of sep "[]" cs]
      by (auto simp: takeWhile_append)
  next
    case False
    then show ?thesis
      using Cons.IH [of "c # cur"] by (auto simp: takeWhile_append)
  qed
qed

text \<open>The extension is the text after the last dot, or the whole path when there is no dot.\<close>

lemma path_ext_eq:
  "path_ext p =
     Some (if CHR ''.'' \<in> set p then rev (takeWhile (\<lambda>c. c \<noteq> CHR ''.'') (rev p)) else p)"
  using last_split_acc [of "CHR ''.''" "[]" p] split_acc_not_Nil [of "CHR ''.''" "[]" p]
  by (simp add: path_ext_def split_def splice_last_def index0_def)

lemma all_extensions_eq:
  "all_extensions =
     [''png'', ''jpg'', ''jpeg'', ''tga'', ''bmp'', ''mp4'', ''ts'', ''mov'', ''flv'', ''mkv'',
      ''avi'', ''mp3'', ''ogg'', ''aac'', ''wav'', ''gif'', ''webm'', ''txt'', ''html'']"
  by (simp add: all_extensions_def supportedFiles_def)

lemma distinct_all_extensions: "distinct all_extensions"
  by (simp add: all_extensions_eq)

lemma lowercase_all_extensions: "\<forall>e \<in> set all_extensions. toLowerCase_ascii e = e"
  by (simp add: all_extensions_eq toLowerCase_ascii_def toLowerCase_ascii_char_def)

lemma alphabet_all_extensions:
  "\<forall>e \<in> set all_extensions. set e \<subseteq> set ''abcdefghijklmnopqrstuvwxyz0123456789''"
  by (simp add: all_extensions_eq)

lemma extensions_subset: "t \<in> set ts \<Longrightarrow> set (extensions t) \<subseteq> set (concat (map extensions ts))"
  by auto

lemma at_most_one_holder:
  "distinct (concat (map f ts)) \<Longrightarrow> length (filter (\<lambda>t. e \<in> set (f t)) ts) \<le> 1"
proof (induction ts)
  case Nil
  then show ?case by simp
next
  case (Cons t ts)
  show ?case
  proof (cases "e \<in> set (f t)")
    case True
    with Cons.prems have "\<forall>u \<in> set ts. e \<notin> set (f u)" by auto
    then have "filter (\<lambda>t. e \<in> set (f t)) ts = []" by (simp add: filter_empty_conv)
    with True show ?thesis by simp
  next
    case False
    with Cons show ?thesis by simp
  qed
qed

lemma find_filter_single:
  "find P ts = Some t \<Longrightarrow> length (filter P ts) \<le> 1 \<Longrightarrow> filter P ts = [t]"
proof (induction ts)
  case Nil
  then show ?case by simp
next
  case (Cons u us)
  show ?case
  proof (cases "P u")
    case True
    with Cons.prems show ?thesis by simp
  next
    case False
    with Cons show ?thesis by simp
  qed
qed

lemma find_SomeD: "find P ts = Some t \<Longrightarrow> t \<in> set ts \<and> P t"
  by (induction ts) (auto split: if_splits)

lemma pairwise_disjoint_extensions:
  "\<forall>t1 \<in> set supportedFiles. \<forall>t2 \<in> set supportedFiles.
     t1 \<noteq> t2 \<longrightarrow> set (extensions t1) \<inter> set (extensions t2) = {}"
  by (simp add: supportedFiles_def)

lemma holders_at_most_one:
  "length (filter (\<lambda>t. js_includes (extensions t) e) supportedFiles) \<le> 1"
  unfolding js_includes_def
  using distinct_all_extensions at_most_one_holder [of extensions supportedFiles e]
  by (simp add: all_extensions_def)

text \<open>
  C8: the four extension lists of \<open>supportedFiles\<close> are pairwise disjoint, every listed
  extension is listed once and is lowercase (it is made of the letters \<open>a\<close> to \<open>z\<close> and
  digits, and lowercasing leaves it as it is), and so the lookup of the lowercased
  form of any extension finds at most one entry, whatever \<open>toLowerCase\<close> returns.
\<close>

theorem supportedFiles_invariant:
  "length supportedFiles = 4
   \<and> (\<forall>t1 \<in> set supportedFiles. \<forall>t2 \<in> set supportedFiles.
        t1 \<noteq> t2 \<longrightarrow> set (extensions t1) \<inter> set (extensions t2) = {})
   \<and> distinct (concat (map extensions supportedFiles))
   \<and> (\<forall>e \<in> set (concat (map extensions supportedFiles)). toLowerCase_ascii e = e)
   \<and> (\<forall>e \<in> set (concat (map extensions supportedFiles)).
        set e \<subseteq> set ''abcdefghijklmnopqrstuvwxyz0123456789'')
   \<and> length (filter (\<lambda>t. js_includes (extensions t) (toLowerCase ext)) supportedFiles) \<le> 1"
proof -
  have "length supportedFiles = 4"
    by (simp add: supportedFiles_def)
  moreover have "distinct (concat (map extensions supportedFiles))"
    using distinct_all_extensions by (simp add: all_extensions_def)
  moreover have "\<forall>e \<in> set (concat (map extensions supportedFiles)). toLowerCase_ascii e = e"
    using lowercase_all_extensions by (simp only: all_extensions_def)
  moreover have "\<forall>e \<in> set (concat (map extensions supportedFiles)).
        set e \<subseteq> set ''abcdefghijklmnopqrstuvwxyz0123456789''"
    using alphabet_all_extensions by (simp only: all_extensions_def)
  ultimately show ?thesis
    using pairwise_disjoint_extensions holders_at_most_one by blast
qed

theorem supportedFiles_invariant_witness:
  "set (extensions (supportedFiles ! 0)) \<inter> set (extensions (supportedFiles ! 1)) = {}
   \<and> toLowerCase_ascii ''webm'' = ''webm''
   \<and> set ''webm'' \<subseteq> set ''abcdefghijklmnopqrstuvwxyz0123456789''
   \<and> length (filter (\<lambda>t. js_includes (extensions t) (toLowerCase_ascii ''PNG'')) supportedFiles) \<le> 1
   \<and> filter (\<lambda>t. js_includes (extensions t) (toLowerCase_ascii ''PNG'')) supportedFiles
       = [supportedFiles ! 0]"
proof -
  note inv = supportedFiles_invariant [where toLowerCase = toLowerCase_ascii and ext = "''PNG''"]
  have m0: "supportedFiles ! 0 \<in> set supportedFiles"
    and m1: "supportedFiles ! 1 \<in> set supportedFiles"
    and ne: "supportedFiles ! 0 \<noteq> supportedFiles ! 1"
    by (simp_all add: supportedFiles_def)
  have w: "''webm'' \<in> set (concat (map extensions supportedFiles))"
    by (simp add: supportedFiles_def)
  have "set (extensions (supportedFiles ! 0)) \<inter> set (extensions (supportedFiles ! 1)) = {}"
    using inv m0 m1 ne by blast
  moreover have "toLowerCase_ascii ''webm'' = ''webm''"
    using inv w by blast
  moreover have "set ''webm'' \<subseteq> set ''abcdefghijklmnopqrstuvwxyz0123456789''"
    using inv w by blast
  moreover have "length (filter (\<lambda>t. js_includes (extensions t) (toLowerCase_ascii ''PNG'')) supportedFiles) \<le> 1"
    using inv by blast
  moreover have "filter (\<lambda>t. js_includes (extensions t) (toLowerCase_ascii ''PNG'')) supportedFiles
       = [supportedFiles ! 0]"
    by (simp add: supportedFiles_def js_includes_def toLowerCase_ascii_def toLowerCase_ascii_char_def)
  ultimately show ?thesis by blast
qed

lemma addFile_scan_first:
  "find (\<lambda>t. js_includes (extensions t) ext) ts = Some t \<Longrightarrow>
   addFile_settings (obsName t) fp = Some settings \<Longrightarrow>
   addFile_scan ts ext fp = Some (obsName t, settings)"
  by (induction ts) (auto split: if_splits)

lemma addFile_scan_none:
  "\<forall>t \<in> set ts. \<not> js_includes (extensions t) ext \<Longrightarrow> addFile_scan ts ext fp = None"
  by (induction ts) auto

lemma supportedFiles_obsName:
  "t \<in> set supportedFiles \<Longrightarrow>
     obsName t \<in> {''image_source'', ''ffmpeg_source'', ''text_gdiplus'', ''browser_source''}"
  by (auto simp add: supportedFiles_def)

lemma empty_not_extension: "[] \<notin> set all_extensions"
  by (simp add: all_extensions_eq)

lemma holder_nonempty:
  assumes "t \<in> set supportedFiles" and "js_includes (extensions t) e"
  shows "e \<noteq> []"
proof -
  from assms have "e \<in> set all_extensions"
    unfolding all_extensions_def js_includes_def by auto
  with empty_not_extension show ?thesis by auto
qed

text \<open>
  C1: when the extension read off the resolved path is not empty and its lowercased
  form is listed by an entry of \<open>supportedFiles\<close>, the first such entry \<open>t\<close> in declaration
  order (the only one) gives the kind of the source that \<open>addFile\<close> creates and returns,
  and the settings are those of that kind: \<open>{file}\<close> for an image,
  \<open>{is_local_file, local_file, looping}\<close> for media, \<open>{read_from_file, file}\<close> for text,
  \<open>{is_local_file, local_file}\<close> for a web page. (The empty string is lowercased to
  itself, which no entry lists: no path with a listed extension is left out.)
\<close>

theorem addFile_supported_extension:
  assumes "realpathSync (filePath slide) = Inr realpath"
    and "path_ext realpath = Some ext0"
    and "ext0 \<noteq> []"
    and "find (\<lambda>t. js_includes (extensions t) (toLowerCase ext0)) supportedFiles = Some t"
  shows "\<exists>settings.
      addFile toLowerCase realpathSync uuid_v4 random this slide =
        (Inr (Some \<lparr> inputType = obsName t, inputId = obsName t @ ''_'' @ uuid_v4,
                     inputSettings = settings \<rparr>),
         this\<lparr> trace := trace this @
           [InputFactory_create (obsName t) (obsName t @ ''_'' @ uuid_v4) settings,
            SceneFactory_create random,
            Scene_add random (obsName t @ ''_'' @ uuid_v4),
            Console_log_sceneItem random (obsName t @ ''_'' @ uuid_v4),
            SetTimeout_transitionTo 1000 random] \<rparr>)
      \<and> filter (\<lambda>t. js_includes (extensions t) (toLowerCase ext0)) supportedFiles = [t]
      \<and> obsName t \<in> {''image_source'', ''ffmpeg_source'', ''text_gdiplus'', ''browser_source''}
      \<and> (obsName t = ''image_source'' \<longrightarrow> settings = [(''file'', JStr (filePath slide))])
      \<and> (obsName t = ''ffmpeg_source'' \<longrightarrow>
            settings = [(''is_local_file'', JBool True), (''local_file'', JStr (filePath slide)),
                        (''looping'', JBool True)])
      \<and> (obsName t = ''text_gdiplus'' \<longrightarrow>
            settings = [(''read_from_file'', JBool True), (''file'', JStr (filePath slide))])
      \<and> (obsName t = ''browser_source'' \<longrightarrow>
            settings = [(''is_local_file'', JBool True), (''local_file'', JStr (filePath slide))])"
proof -
  from assms(4) have mem: "t \<in> set supportedFiles"
    using find_SomeD [of "\<lambda>t. js_includes (extensions t) (toLowerCase ext0)" supportedFiles t]
    by simp
  from mem have kind:
    "obsName t \<in> {''image_source'', ''ffmpeg_source'', ''text_gdiplus'', ''browser_source''}"
    by (rule supportedFiles_obsName)
  then obtain settings where st: "addFile_settings (obsName t) (filePath slide) = Some settings"
    by (auto simp add: addFile_settings_def)
  from assms(4) st
  have scan: "addFile_scan supportedFiles (toLowerCase ext0) (filePath slide)
      = Some (obsName t, settings)"
    by (rule addFile_scan_first)
  have single: "filter (\<lambda>t. js_includes (extensions t) (toLowerCase ext0)) supportedFiles = [t]"
    using assms(4) holders_at_most_one by (rule find_filter_single)
  have run: "addFile toLowerCase realpathSync uuid_v4 random this slide =
        (Inr (Some \<lparr> inputType = obsName t, inputId = obsName t @ ''_'' @ uuid_v4,
                     inputSettings = settings \<rparr>),
         this\<lparr> trace := trace this @
           [InputFactory_create (obsName t) (obsName t @ ''_'' @ uuid_v4) settings,
            SceneFactory_create random,
            Scene_add random (obsName t @ ''_'' @ uuid_v4),
            Console_log_sceneItem random (obsName t @ ''_'' @ uuid_v4),
            SetTimeout_transitionTo 1000 random] \<rparr>)"
    using assms(1,2,3) scan
    by (simp add: addFile_def addFile_dispatch_def createSource_def emit_def Let_def)
  have shape:
    "(obsName t = ''image_source'' \<longrightarrow> settings = [(''file'', JStr (filePath slide))])
      \<and> (obsName t = ''ffmpeg_source'' \<longrightarrow>
            settings = [(''is_local_file'', JBool True), (''local_file'', JStr (filePath slide)),
                        (''looping'', JBool True)])
      \<and> (obsName t = ''text_gdiplus'' \<longrightarrow>
            settings = [(''read_from_file'', JBool True), (''file'', JStr (filePath slide))])
      \<and> (obsName t = ''browser_source'' \<longrightarrow>
            settings = [(''is_local_file'', JBool True), (''local_file'', JStr (filePath slide))])"
    using st by (auto simp add: addFile_settings_def)
  from run single kind shape show ?thesis by blast
qed

text \<open>
  The witness runs one path of each kind, and a media file whose extension is written
  with KELVIN SIGN (the bytes E2 84 AA) for the letter \<open>K\<close>, which the runtime lowercases
  to \<open>mkv\<close>.
\<close>

theorem addFile_supported_extension_witness:
  "(\<exists>this'. addFile
        (\<lambda>s. if s = ''m'' @ [CHR 0xE2, CHR 0x84, CHR 0xAA] @ ''v'' then ''mkv''
             else toLowerCase_ascii s)
        (\<lambda>p. Inr p) ''7f'' ''0.25''
        \<lparr> obsInitialized = True, previewWindow = False, settingsStore = (\<lambda>k. 0), trace = [] \<rparr>
        \<lparr> filePath = ''/show/Logo.PNG'' \<rparr>
      = (Inr (Some \<lparr> inputType = ''image_source'', inputId = ''image_source_7f'',
                     inputSettings = [(''file'', JStr ''/show/Logo.PNG'')] \<rparr>), this'))
   \<and> (\<exists>this'. addFile
        (\<lambda>s. if s = ''m'' @ [CHR 0xE2, CHR 0x84, CHR 0xAA] @ ''v'' then ''mkv''
             else toLowerCase_ascii s)
        (\<lambda>p. Inr p) ''7f'' ''0.25''
        \<lparr> obsInitialized = True, previewWindow = False, settingsStore = (\<lambda>k. 0), trace = [] \<rparr>
        \<lparr> filePath = ''/show/intro.Mp4'' \<rparr>
      = (Inr (Some \<lparr> inputType = ''ffmpeg_source'', inputId = ''ffmpeg_source_7f'',
                     inputSettings = [(''is_local_file'', JBool True),
                                      (''local_file'', JStr ''/show/intro.Mp4''),
                                      (''looping'', JBool True)] \<rparr>), this'))
   \<and> (\<exists>this'. addFile
        (\<lambda>s. if s = ''m'' @ [CHR 0xE2, CHR 0x84, CHR 0xAA] @ ''v'' then ''mkv''
             else toLowerCase_ascii s)
        (\<lambda>p. Inr p) ''7f'' ''0.25''
        \<lparr> obsInitialized = True, previewWindow = False, settingsStore = (\<lambda>k. 0), trace = [] \<rparr>
        \<lparr> filePath = ''/show/notes.txt'' \<rparr>
      = (Inr (Some \<lparr> inputType = ''text_gdiplus'', inputId = ''text_gdiplus_7f'',
                     inputSettings = [(''read_from_file'', JBool True),
                                      (''file'', JStr ''/show/notes.txt'')] \<rparr>), this'))
   \<and> (\<exists>this'. addFile
        (\<lambda>s. if s = ''m'' @ [CHR 0xE2, CHR 0x84, CHR 0xAA] @ ''v'' then ''mkv''
             else toLowerCase_ascii s)
        (\<lambda>p. Inr p) ''7f'' ''0.25''
        \<lparr> obsInitialized = True, previewWindow = False, settingsStore = (\<lambda>k. 0), trace = [] \<rparr>
        \<lparr> filePath = ''/show/page.HTML'' \<rparr>
      = (Inr (Some \<lparr> inputType = ''browser_source'', inputId = ''browser_source_7f'',
                     inputSettings = [(''is_local_file'', JBool True),
                                      (''local_file'', JStr ''/show/page.HTML'')] \<rparr>), this'))
   \<and> (\<exists>this'. addFile
        (\<lambda>s. if s = ''m'' @ [CHR 0xE2, CHR 0x84, CHR 0xAA] @ ''v'' then ''mkv''
             else toLowerCase_ascii s)
        (\<lambda>p. Inr p) ''7f'' ''0.25''
        \<lparr> obsInitialized = True, previewWindow = False, settingsStore = (\<lambda>k. 0), trace = [] \<rparr>
        \<lparr> filePath = ''/show/clip.m'' @ [CHR 0xE2, CHR 0x84, CHR 0xAA] @ ''v'' \<rparr>
      = (Inr (Some \<lparr> inputType = ''ffmpeg_source'', inputId = ''ffmpeg_source_7f'',
                     inputSettings =
                       [(''is_local_file'', JBool True),
                        (''local_file'',
                           JStr (''/show/clip.m'' @ [CHR 0xE2, CHR 0x84, CHR 0xAA] @ ''v'')),
                        (''looping'', JBool True)] \<rparr>), this'))"
proof -
  let ?lc = "\<lambda>s. if s = ''m'' @ [CHR 0xE2, CHR 0x84, CHR 0xAA] @ ''v'' then ''mkv''
                  else toLowerCase_ascii s"
  let ?rp = "\<lambda>p::string. (Inr p :: js_error + string)"
  let ?obs = "\<lparr> obsInitialized = True, previewWindow = False, settingsStore = (\<lambda>k. 0), trace = [] \<rparr>"
  let ?kelvin = "''/show/clip.m'' @ [CHR 0xE2, CHR 0x84, CHR 0xAA] @ ''v''"
  have lower: "?lc ''PNG'' = ''png''" "?lc ''Mp4'' = ''mp4''"
    "?lc ''txt'' = ''txt''" "?lc ''HTML'' = ''html''"
    "?lc (''m'' @ [CHR 0xE2, CHR 0x84, CHR 0xAA] @ ''v'') = ''mkv''"
    by (simp_all add: toLowerCase_ascii_def toLowerCase_ascii_char_def)
  have e1: "path_ext ''/show/Logo.PNG'' = Some ''PNG''"
    and e2: "path_ext ''/show/intro.Mp4'' = Some ''Mp4''"
    and e3: "path_ext ''/show/notes.txt'' = Some ''txt''"
    and e4: "path_ext ''/show/page.HTML'' = Some ''HTML''"
    and e5: "path_ext ?kelvin = Some (''m'' @ [CHR 0xE2, CHR 0x84, CHR 0xAA] @ ''v'')"
    by (simp_all add: path_ext_def split_def splice_last_def index0_def)
  have f1: "find (\<lambda>t. js_includes (extensions t) (?lc ''PNG'')) supportedFiles
      = Some (supportedFiles ! 0)"
    and f2: "find (\<lambda>t. js_includes (extensions t) (?lc ''Mp4'')) supportedFiles
      = Some (supportedFiles ! 1)"
    and f3: "find (\<lambda>t. js_includes (extensions t) (?lc ''txt'')) supportedFiles
      = Some (supportedFiles ! 2)"
    and f4: "find (\<lambda>t. js_includes (extensions t) (?lc ''HTML'')) supportedFiles
      = Some (supportedFiles ! 3)"
    and f5: "find (\<lambda>t. js_includes (extensions t)
                 (?lc (''m'' @ [CHR 0xE2, CHR 0x84, CHR 0xAA] @ ''v''))) supportedFiles
      = Some (supportedFiles ! 1)"
    unfolding lower by (simp_all add: supportedFiles_def js_includes_def)
  have n: "obsName (supportedFiles ! 0) = ''image_source''"
    "obsName (supportedFiles ! 1) = ''ffmpeg_source''"
    "obsName (supportedFiles ! 2) = ''text_gdiplus''"
    "obsName (supportedFiles ! 3) = ''browser_source''"
    by (simp_all add: supportedFiles_def)
  have "\<exists>this'. addFile ?lc ?rp ''7f'' ''0.25'' ?obs \<lparr> filePath = ''/show/Logo.PNG'' \<rparr>
      = (Inr (Some \<lparr> inputType = ''image_source'', inputId = ''image_source_7f'',
                     inputSettings = [(''file'', JStr ''/show/Logo.PNG'')] \<rparr>), this')"
    using addFile_supported_extension [where toLowerCase = ?lc and realpathSync = ?rp
        and slide = "\<lparr> filePath = ''/show/Logo.PNG'' \<rparr>" and realpath = "''/show/Logo.PNG''"
        and ?ext0.0 = "''PNG''" and t = "supportedFiles ! 0" and ?uuid_v4.0 = "''7f''"
        and random = "''0.25''" and this = ?obs]
      e1 f1 n by auto
  moreover
  have "\<exists>this'. addFile ?lc ?rp ''7f'' ''0.25'' ?obs \<lparr> filePath = ''/show/intro.Mp4'' \<rparr>
      = (Inr (Some \<lparr> inputType = ''ffmpeg_source'', inputId = ''ffmpeg_source_7f'',
                     inputSettings = [(''is_local_file'', JBool True),
                                      (''local_file'', JStr ''/show/intro.Mp4''),
                                      (''looping'', JBool True)] \<rparr>), this')"
    using addFile_supported_extension [where toLowerCase = ?lc and realpathSync = ?rp
        and slide = "\<lparr> filePath = ''/show/intro.Mp4'' \<rparr>" and realpath = "''/show/intro.Mp4''"
        and ?ext0.0 = "''Mp4''" and t = "supportedFiles ! 1" and ?uuid_v4.0 = "''7f''"
        and random = "''0.25''" and this = ?obs]
      e2 f2 n by auto
  moreover
  have "\<exists>this'. addFile ?lc ?rp ''7f'' ''0.25'' ?obs \<lparr> filePath = ''/show/notes.txt'' \<rparr>
      = (Inr (Some \<lparr> inputType = ''text_gdiplus'', inputId = ''text_gdiplus_7f'',
                     inputSettings = [(''read_from_file'', JBool True),
                                      (''file'', JStr ''/show/notes.txt'')] \<rparr>), this')"
    using addFile_supported_extension [where toLowerCase = ?lc and realpathSync = ?rp
        and slide = "\<lparr> filePath = ''/show/notes.txt'' \<rparr>" and realpath = "''/show/notes.txt''"
        and ?ext0.0 = "''txt''" and t = "supportedFiles ! 2" and ?uuid_v4.0 = "''7f''"
        and random = "''0.25''" and this = ?obs]
      e3 f3 n by auto
  moreover
  have "\<exists>this'. addFile ?lc ?rp ''7f'' ''0.25'' ?obs \<lparr> filePath = ''/show/page.HTML'' \<rparr>
      = (Inr (Some \<lparr> inputType = ''browser_source'', inputId = ''browser_source_7f'',
                     inputSettings = [(''is_local_file'', JBool True),
                                      (''local_file'', JStr ''/show/page.HTML'')] \<rparr>), this')"
    using addFile_supported_extension [where toLowerCase = ?lc and realpathSync = ?rp
        and slide = "\<lparr> filePath = ''/show/page.HTML'' \<rparr>" and realpath = "''/show/page.HTML''"
        and ?ext0.0 = "''HTML''" and t = "supportedFiles ! 3" and ?uuid_v4.0 = "''7f''"
        and random = "''0.25''" and this = ?obs]
      e4 f4 n by auto
  moreover
  have "\<exists>this'. addFile ?lc ?rp ''7f'' ''0.25'' ?obs \<lparr> filePath = ?kelvin \<rparr>
      = (Inr (Some \<lparr> inputType = ''ffmpeg_source'', inputId = ''ffmpeg_source_7f'',
                     inputSettings =
                       [(''is_local_file'', JBool True),
                        (''local_file'', JStr ?kelvin),
                        (''looping'', JBool True)] \<rparr>), this')"
    using addFile_supported_extension [where toLowerCase = ?lc and realpathSync = ?rp
        and slide = "\<lparr> filePath = ?kelvin \<rparr>" and realpath = ?kelvin
        and ?ext0.0 = "''m'' @ [CHR 0xE2, CHR 0x84, CHR 0xAA] @ ''v''"
        and t = "supportedFiles ! 1" and ?uuid_v4.0 = "''7f''"
        and random = "''0.25''" and this = ?obs]
      e5 f5 n by auto
  ultimately show ?thesis by blast
qed

lemma no_separator_in_extensions:
  "\<forall>e \<in> set all_extensions. CHR ''/'' \<notin> set e \<and> CHR 0x5C \<notin> set e"
  by (simp add: all_extensions_eq)

lemma separator_not_listed:
  assumes "c \<in> set e" and "c = CHR ''/'' \<or> c = CHR 0x5C"
  shows "\<forall>t \<in> set supportedFiles. \<not> js_includes (extensions t) e"
proof
  fix t
  assume t: "t \<in> set supportedFiles"
  show "\<not> js_includes (extensions t) e"
  proof
    assume "js_includes (extensions t) e"
    with t have "e \<in> set all_extensions"
      unfolding all_extensions_def js_includes_def by auto
    with no_separator_in_extensions assms show False by blast
  qed
qed

text \<open>
  C2: \<open>addFile\<close> returns \<open>null\<close> and leaves the wrapper as it was (no source, no scene,
  no timer) when the extension it reads off the resolved path is empty, when the
  lowercased extension contains a directory separator (the file name has no dot: what
  follows the last dot of the path, or the whole path if it has none, reaches into
  the directories), and when the lowercased extension is listed by no entry of
  \<open>supportedFiles\<close>.
\<close>

theorem addFile_unsupported_extension:
  assumes "realpathSync (filePath slide) = Inr realpath"
    and "path_ext realpath = Some []
         \<or> (\<exists>ext0. path_ext realpath = Some ext0
               \<and> (CHR ''/'' \<in> set (toLowerCase ext0) \<or> CHR 0x5C \<in> set (toLowerCase ext0)))
         \<or> (\<exists>ext0. path_ext realpath = Some ext0
               \<and> (\<forall>t \<in> set supportedFiles. \<not> js_includes (extensions t) (toLowerCase ext0)))"
  shows "addFile toLowerCase realpathSync uuid_v4 random this slide = (Inr None, this)"
proof -
  have unlisted: "addFile toLowerCase realpathSync uuid_v4 random this slide = (Inr None, this)"
    if "path_ext realpath = Some ext0"
      and "\<forall>t \<in> set supportedFiles. \<not> js_includes (extensions t) (toLowerCase ext0)"
    for ext0
  proof -
    from that(2) have "addFile_scan supportedFiles (toLowerCase ext0) (filePath slide) = None"
      by (rule addFile_scan_none)
    with assms(1) that(1) show ?thesis
      by (simp add: addFile_def addFile_dispatch_def)
  qed
  from assms(2) consider
    (empty) "path_ext realpath = Some []"
    | (nodot) ext0 where "path_ext realpath = Some ext0"
        "CHR ''/'' \<in> set (toLowerCase ext0) \<or> CHR 0x5C \<in> set (toLowerCase ext0)"
    | (other) ext0 where "path_ext realpath = Some ext0"
        "\<forall>t \<in> set supportedFiles. \<not> js_includes (extensions t) (toLowerCase ext0)"
    by blast
  then show ?thesis
  proof cases
    case empty
    with assms(1) show ?thesis
      by (simp add: addFile_def addFile_dispatch_def)
  next
    case nodot
    from nodot(2) obtain c where "c \<in> set (toLowerCase ext0)" "c = CHR ''/'' \<or> c = CHR 0x5C"
      by blast
    then have "\<forall>t \<in> set supportedFiles. \<not> js_includes (extensions t) (toLowerCase ext0)"
      by (rule separator_not_listed)
    with nodot(1) show ?thesis by (rule unlisted)
  next
    case other
    then show ?thesis by (rule unlisted)
  qed
qed

theorem addFile_unsupported_extension_witness:
  "addFile toLowerCase_ascii (\<lambda>p. Inr p) ''7f'' ''0.25''
        \<lparr> obsInitialized = True, previewWindow = False, settingsStore = (\<lambda>k. 0), trace = [] \<rparr>
        \<lparr> filePath = ''/show/notes.'' \<rparr>
      = (Inr None,
         \<lparr> obsInitialized = True, previewWindow = False, settingsStore = (\<lambda>k. 0), trace = [] \<rparr>)
   \<and> addFile toLowerCase_ascii (\<lambda>p. Inr p) ''7f'' ''0.25''
        \<lparr> obsInitialized = True, previewWindow = False, settingsStore = (\<lambda>k. 0), trace = [] \<rparr>
        \<lparr> filePath = ''/show/README'' \<rparr>
      = (Inr None,
         \<lparr> obsInitialized = True, previewWindow = False, settingsStore = (\<lambda>k. 0), trace = [] \<rparr>)
   \<and> addFile toLowerCase_ascii (\<lambda>p. Inr p) ''7f'' ''0.25''
        \<lparr> obsInitialized = True, previewWindow = False, settingsStore = (\<lambda>k. 0), trace = [] \<rparr>
        \<lparr> filePath = ''/show.d/png'' \<rparr>
      = (Inr None,
         \<lparr> obsInitialized = True, previewWindow = False, settingsStore = (\<lambda>k. 0), trace = [] \<rparr>)
   \<and> addFile toLowerCase_ascii (\<lambda>p. Inr p) ''7f'' ''0.25''
        \<lparr> obsInitialized = True, previewWindow = False, settingsStore = (\<lambda>k. 0), trace = [] \<rparr>
        \<lparr> filePath = ''/show/deck.PDF'' \<rparr>
      = (Inr None,
         \<lparr> obsInitialized = True, previewWindow = False, settingsStore = (\<lambda>k. 0), trace = [] \<rparr>)"
proof -
  let ?rp = "\<lambda>p::string. (Inr p :: js_error + string)"
  let ?obs = "\<lparr> obsInitialized = True, previewWindow = False, settingsStore = (\<lambda>k. 0), trace = [] \<rparr>"
  have e1: "path_ext ''/show/notes.'' = Some []"
    by (simp add: path_ext_def split_def splice_last_def index0_def)
  have e2: "path_ext ''/show/README'' = Some ''/show/README''"
    by (simp add: path_ext_def split_def splice_last_def index0_def)
  have e3: "path_ext ''/show.d/png'' = Some ''d/png''"
    by (simp add: path_ext_def split_def splice_last_def index0_def)
  have e4: "path_ext ''/show/deck.PDF'' = Some ''PDF''"
    by (simp add: path_ext_def split_def splice_last_def index0_def)
  have l2: "toLowerCase_ascii ''/show/README'' = ''/show/readme''"
    and l3: "toLowerCase_ascii ''d/png'' = ''d/png''"
    and l4: "toLowerCase_ascii ''PDF'' = ''pdf''"
    by (simp_all add: toLowerCase_ascii_def toLowerCase_ascii_char_def)
  have u4: "\<forall>t \<in> set supportedFiles. \<not> js_includes (extensions t) (toLowerCase_ascii ''PDF'')"
    unfolding l4 by (simp add: supportedFiles_def js_includes_def)
  have "addFile toLowerCase_ascii ?rp ''7f'' ''0.25'' ?obs \<lparr> filePath = ''/show/notes.'' \<rparr> = (Inr None, ?obs)"
    using addFile_unsupported_extension [where toLowerCase = toLowerCase_ascii
        and realpathSync = ?rp and slide = "\<lparr> filePath = ''/show/notes.'' \<rparr>"
        and realpath = "''/show/notes.''" and ?uuid_v4.0 = "''7f''" and random = "''0.25''"
        and this = ?obs] e1
    by simp
  moreover
  have "addFile toLowerCase_ascii ?rp ''7f'' ''0.25'' ?obs \<lparr> filePath = ''/show/README'' \<rparr> = (Inr None, ?obs)"
    using addFile_unsupported_extension [where toLowerCase = toLowerCase_ascii
        and realpathSync = ?rp and slide = "\<lparr> filePath = ''/show/README'' \<rparr>"
        and realpath = "''/show/README''" and ?uuid_v4.0 = "''7f''" and random = "''0.25''"
        and this = ?obs] e2 l2
    by simp
  moreover
  have "addFile toLowerCase_ascii ?rp ''7f'' ''0.25'' ?obs \<lparr> filePath = ''/show.d/png'' \<rparr> = (Inr None, ?obs)"
    using addFile_unsupported_extension [where toLowerCase = toLowerCase_ascii
        and realpathSync = ?rp and slide = "\<lparr> filePath = ''/show.d/png'' \<rparr>"
        and realpath = "''/show.d/png''" and ?uuid_v4.0 = "''7f''" and random = "''0.25''"
        and this = ?obs] e3 l3
    by simp
  moreover
  have "addFile toLowerCase_ascii ?rp ''7f'' ''0.25'' ?obs \<lparr> filePath = ''/show/deck.PDF'' \<rparr> = (Inr None, ?obs)"
    using addFile_unsupported_extension [where toLowerCase = toLowerCase_ascii
        and realpathSync = ?rp and slide = "\<lparr> filePath = ''/show/deck.PDF'' \<rparr>"
        and realpath = "''/show/deck.PDF''" and ?uuid_v4.0 = "''7f''" and random = "''0.25''"
        and this = ?obs] e4 u4
    by simp
  ultimately show ?thesis by blast
qed

lemma addFile_scan_legacy_scan:
  "addFile_scan supportedFiles ext fp = addFile_legacy_scan SUPPORTED_EXT ext fp"
  by (simp add: supportedFiles_def SUPPORTED_EXT_def js_includes_def addFile_settings_def)

text \<open>
  C10: for every path, every answer of the file system and every lowercasing, the
  table-driven dispatch of \<open>addFile\<close> and the \<open>SUPPORTED_EXT\<close> dispatch of the older
  \<open>addFile\<close> agree: both throw the same error, or both select nothing, or both select
  the same kind of source with equal settings, although the older one asks for web
  pages before text files.
\<close>

theorem addFile_dispatch_legacy_agree:
  "addFile_dispatch toLowerCase realpathSync slide
     = addFile_legacy_dispatch toLowerCase realpathSync (filePath slide)"
  by (simp add: addFile_dispatch_def addFile_legacy_dispatch_def addFile_scan_legacy_scan
      split: sum.splits option.splits)

section \<open>Properties of the layout\<close>

lemma floor_rat_numeral: "\<lfloor>(numeral a :: rat) / numeral b\<rfloor> = numeral a div numeral b"
  using floor_divide_of_int_eq [of "numeral a" "numeral b", where ?'a = rat] by simp

lemma ceiling_rat_numeral: "\<lceil>(numeral a :: rat) / numeral b\<rceil> = - (- numeral a div numeral b)"
  using ceiling_divide_eq_div [of "numeral a" "numeral b", where ?'a = rat] by simp

lemma floor_rat_one_numeral: "\<lfloor>(1 :: rat) / numeral b\<rfloor> = 1 div numeral b"
  using floor_divide_of_int_eq [of 1 "numeral b", where ?'a = rat] by simp

text \<open>How \<open>to_double\<close> is evaluated on a positive number.\<close>

lemma to_double_pos_gen:
  assumes "0 < r" and "max (binade r) (- 1022) = e"
    and "round_half_even (r / pow2 (e - 52)) = n"
  shows "to_double r =
     (if pow2 1024 \<le> rat_of_int n * pow2 (e - 52) then PosInf
      else Fin (of_int n * pow2 (e - 52)))"
proof -
  from assms(1) have a: "\<bar>r\<bar> = r" and nz: "r \<noteq> 0" by simp_all
  show ?thesis
    unfolding to_double_def Let_def a assms(2) assms(3) using nz assms(1) by simp
qed

lemma to_double_pos:
  assumes "0 < r" and "binade r = e" and "- 1022 \<le> e"
    and "round_half_even (r / pow2 (e - 52)) = n"
    and "rat_of_int n * pow2 (e - 52) < pow2 1024"
  shows "to_double r = Fin (of_int n * pow2 (e - 52))"
proof -
  from assms(2,3) have "max (binade r) (- 1022) = e" by simp
  with assms(1) have "to_double r =
     (if pow2 1024 \<le> rat_of_int n * pow2 (e - 52) then PosInf
      else Fin (of_int n * pow2 (e - 52)))"
    using assms(4) by (rule to_double_pos_gen)
  with assms(5) show ?thesis by simp
qed

text \<open>
  Known values: the number \<open>0.1\<close>; a tie, which goes to the even neighbour; the first
  number that overflows; half the smallest subnormal number, which goes to zero.
\<close>

lemma to_double_tenth: "to_double (1 / 10) = Fin (3602879701896397 / 36028797018963968)"
proof -
  have b: "binade (1 / 10) = - 4"
    by (simp add: binade_def compute_bitlen floor_rat_numeral ceiling_rat_numeral)
  have r: "round_half_even ((1 / 10) / pow2 (- 4 - 52)) = 7205759403792794"
    by (simp add: pow2_def round_half_even_def Let_def floor_rat_numeral)
  show ?thesis
    using to_double_pos [of "1 / 10" "- 4" 7205759403792794] b r by (simp add: pow2_def)
qed

lemma to_double_tie: "to_double 9007199254740993 = Fin 9007199254740992"
proof -
  have b: "binade 9007199254740993 = 53"
    by (simp add: binade_def compute_bitlen)
  have r: "round_half_even (9007199254740993 / pow2 (53 - 52)) = 4503599627370496"
    by (simp add: pow2_def round_half_even_def Let_def floor_rat_numeral)
  show ?thesis
    using to_double_pos [of 9007199254740993 53 4503599627370496] b r by (simp add: pow2_def)
qed

lemma to_double_overflow: "to_double (2 ^ 1024) = PosInf"
proof -
  have b: "binade (2 ^ 1024) = 1024"
    by (simp add: binade_def compute_bitlen)
  have r: "round_half_even (2 ^ 1024 / pow2 (1024 - 52)) = 4503599627370496"
    by (simp add: pow2_def round_half_even_def Let_def floor_rat_numeral)
  show ?thesis
    using to_double_pos_gen [of "2 ^ 1024" 1024 4503599627370496] b r by (simp add: pow2_def)
qed

lemma to_double_underflow: "to_double (1 / 2 ^ 1075) = Fin 0"
proof -
  have b: "binade (1 / 2 ^ 1075) = - 1075"
    by (simp add: binade_def compute_bitlen floor_rat_numeral ceiling_rat_numeral)
  have r: "round_half_even ((1 / 2 ^ 1075) / pow2 (- 1022 - 52)) = 0"
    by (simp add: pow2_def round_half_even_def Let_def floor_rat_one_numeral)
  show ?thesis
    using to_double_pos_gen [of "1 / 2 ^ 1075" "- 1022" 0] b r by (simp add: pow2_def)
qed

lemma to_double_54_25: "to_double (54 / 25) = Fin (607985949695017 / 281474976710656)"
proof -
  have b: "binade (54 / 25) = 1"
    by (simp add: binade_def compute_bitlen floor_rat_numeral ceiling_rat_numeral)
  have r: "round_half_even ((54 / 25) / pow2 (1 - 52)) = 4863887597560136"
    by (simp add: pow2_def round_half_even_def Let_def floor_rat_numeral)
  show ?thesis
    using to_double_pos [of "54 / 25" "1" 4863887597560136] b r by (simp add: pow2_def)
qed

lemma to_double_216_product: "to_double (15199648742375425 / 70368744177664) = Fin (216)"
proof -
  have b: "binade (15199648742375425 / 70368744177664) = 7"
    by (simp add: binade_def compute_bitlen floor_rat_numeral ceiling_rat_numeral)
  have r: "round_half_even ((15199648742375425 / 70368744177664) / pow2 (7 - 52)) = 7599824371187712"
    by (simp add: pow2_def round_half_even_def Let_def floor_rat_numeral)
  show ?thesis
    using to_double_pos [of "15199648742375425 / 70368744177664" "7" 7599824371187712] b r by (simp add: pow2_def)
qed

lemma to_double_1080_product: "to_double (75998243711877125 / 70368744177664) = Fin (1080)"
proof -
  have b: "binade (75998243711877125 / 70368744177664) = 10"
    by (simp add: binade_def compute_bitlen floor_rat_numeral ceiling_rat_numeral)
  have r: "round_half_even ((75998243711877125 / 70368744177664) / pow2 (10 - 52)) = 4749890231992320"
    by (simp add: pow2_def round_half_even_def Let_def floor_rat_numeral)
  show ?thesis
    using to_double_pos [of "75998243711877125 / 70368744177664" "10" 4749890231992320] b r by (simp add: pow2_def)
qed

lemma to_double_840: "to_double (840) = Fin (840)"
proof -
  have b: "binade (840) = 9"
    by (simp add: binade_def compute_bitlen floor_rat_numeral ceiling_rat_numeral)
  have r: "round_half_even ((840) / pow2 (9 - 52)) = 7388718138654720"
    by (simp add: pow2_def round_half_even_def Let_def floor_rat_numeral)
  show ?thesis
    using to_double_pos [of "840" "9" 7388718138654720] b r by (simp add: pow2_def)
qed

lemma to_double_420: "to_double (420) = Fin (420)"
proof -
  have b: "binade (420) = 8"
    by (simp add: binade_def compute_bitlen floor_rat_numeral ceiling_rat_numeral)
  have r: "round_half_even ((420) / pow2 (8 - 52)) = 7388718138654720"
    by (simp add: pow2_def round_half_even_def Let_def floor_rat_numeral)
  show ?thesis
    using to_double_pos [of "420" "8" 7388718138654720] b r by (simp add: pow2_def)
qed

lemma to_double_27_16: "to_double (27 / 16) = Fin (27 / 16)"
proof -
  have b: "binade (27 / 16) = 0"
    by (simp add: binade_def compute_bitlen floor_rat_numeral ceiling_rat_numeral)
  have r: "round_half_even ((27 / 16) / pow2 (0 - 52)) = 7599824371187712"
    by (simp add: pow2_def round_half_even_def Let_def floor_rat_numeral)
  show ?thesis
    using to_double_pos [of "27 / 16" "0" 7599824371187712] b r by (simp add: pow2_def)
qed

lemma to_double_675_4: "to_double (675 / 4) = Fin (675 / 4)"
proof -
  have b: "binade (675 / 4) = 7"
    by (simp add: binade_def compute_bitlen floor_rat_numeral ceiling_rat_numeral)
  have r: "round_half_even ((675 / 4) / pow2 (7 - 52)) = 5937362789990400"
    by (simp add: pow2_def round_half_even_def Let_def floor_rat_numeral)
  show ?thesis
    using to_double_pos [of "675 / 4" "7" 5937362789990400] b r by (simp add: pow2_def)
qed

lemma to_double_42_25: "to_double (42 / 25) = Fin (7566047373982433 / 4503599627370496)"
proof -
  have b: "binade (42 / 25) = 0"
    by (simp add: binade_def compute_bitlen floor_rat_numeral ceiling_rat_numeral)
  have r: "round_half_even ((42 / 25) / pow2 (0 - 52)) = 7566047373982433"
    by (simp add: pow2_def round_half_even_def Let_def floor_rat_numeral)
  show ?thesis
    using to_double_pos [of "42 / 25" "0" 7566047373982433] b r by (simp add: pow2_def)
qed

lemma to_double_not_NaN: "to_double r \<noteq> NaN"
  by (simp add: to_double_def Let_def)

lemma scale_not_NaN:
  assumes "0 < b"
  shows "js_div (Math_floor (js_mul (js_div (num a) (num b)) (Fin 100))) (Fin 100) \<noteq> NaN"
proof -
  from assms have quot: "js_div (num a) (num b) = to_double (of_nat a / of_nat b)"
    by (simp add: num_def)
  show ?thesis
  proof (cases "to_double (of_nat a / of_nat b)")
    case (Fin q)
    show ?thesis
    proof (cases "to_double (q * 100)")
      case (Fin q')
      with \<open>to_double (of_nat a / of_nat b) = Fin q\<close> quot show ?thesis
        by (simp add: to_double_not_NaN)
    next
      case PosInf
      with \<open>to_double (of_nat a / of_nat b) = Fin q\<close> quot show ?thesis by simp
    next
      case NegInf
      with \<open>to_double (of_nat a / of_nat b) = Fin q\<close> quot show ?thesis by simp
    next
      case NaN
      then show ?thesis by (simp add: to_double_not_NaN)
    qed
  next
    case PosInf
    with quot show ?thesis by simp
  next
    case NegInf
    with quot show ?thesis by simp
  next
    case NaN
    then show ?thesis by (simp add: to_double_not_NaN)
  qed
qed

lemma alignItem_scale_eq:
  "scale (alignItem this sceneItem options) =
     \<lparr> x = js_div (Math_floor (js_mul
                 (js_div (num (min (Store_get (settingsStore this) ''width'')
                                   (Store_get (settingsStore this) ''height'')))
                         (num (width (source sceneItem))))
                 (Fin 100))) (Fin 100),
       y = js_div (Math_floor (js_mul
                 (js_div (num (min (Store_get (settingsStore this) ''width'')
                                   (Store_get (settingsStore this) ''height'')))
                         (num (width (source sceneItem))))
                 (Fin 100))) (Fin 100) \<rparr>"
  by (simp add: alignItem_def Let_def min_def)

lemma scale_1080_500:
  "js_div (Math_floor (js_mul (js_div (num 1080) (num 500)) (Fin 100))) (Fin 100)
     = Fin (607985949695017 / 281474976710656)"
  by (simp add: num_def to_double_54_25 to_double_216_product)

lemma scale_1080_640:
  "js_div (Math_floor (js_mul (js_div (num 1080) (num 640)) (Fin 100))) (Fin 100)
     = Fin (7566047373982433 / 4503599627370496)"
  by (simp add: num_def to_double_27_16 to_double_675_4 to_double_42_25 floor_rat_numeral)

text \<open>
  C3: \<open>alignItem\<close> sets both components of the scale to
  \<open>Math.floor((smallest / itemWidth) * 100) / 100\<close>, with \<open>smallest\<close> the minimum of
  canvas width and height, every operation being the one on binary64 numbers; for a
  positive native width this is a number or an infinity, never \<open>NaN\<close>. On a canvas of
  1920 by 1080 an item 500 wide gets the scale \<open>2.16\<close> (the binary64 number nearest to
  it), and an item 640 wide gets \<open>1.68\<close> from the quotient \<open>1.6875\<close>: two decimals, cut
  off and not rounded.
\<close>

theorem alignItem_scale:
  "scale (alignItem this sceneItem options) =
     \<lparr> x = js_div (Math_floor (js_mul
                 (js_div (num (min (Store_get (settingsStore this) ''width'')
                                   (Store_get (settingsStore this) ''height'')))
                         (num (width (source sceneItem))))
                 (Fin 100))) (Fin 100),
       y = js_div (Math_floor (js_mul
                 (js_div (num (min (Store_get (settingsStore this) ''width'')
                                   (Store_get (settingsStore this) ''height'')))
                         (num (width (source sceneItem))))
                 (Fin 100))) (Fin 100) \<rparr>
   \<and> (0 < width (source sceneItem) \<longrightarrow>
        x (scale (alignItem this sceneItem options)) \<noteq> NaN
        \<and> y (scale (alignItem this sceneItem options)) \<noteq> NaN)
   \<and> (Store_get (settingsStore this) ''width'' = 1920
        \<and> Store_get (settingsStore this) ''height'' = 1080
        \<and> width (source sceneItem) = 500 \<longrightarrow>
        scale (alignItem this sceneItem options)
          = \<lparr> x = to_double (216 / 100), y = to_double (216 / 100) \<rparr>)
   \<and> (Store_get (settingsStore this) ''width'' = 1920
        \<and> Store_get (settingsStore this) ''height'' = 1080
        \<and> width (source sceneItem) = 640 \<longrightarrow>
        scale (alignItem this sceneItem options)
          = \<lparr> x = to_double (168 / 100), y = to_double (168 / 100) \<rparr>)"
proof (intro conjI impI)
  show "scale (alignItem this sceneItem options) =
     \<lparr> x = js_div (Math_floor (js_mul
                 (js_div (num (min (Store_get (settingsStore this) ''width'')
                                   (Store_get (settingsStore this) ''height'')))
                         (num (width (source sceneItem))))
                 (Fin 100))) (Fin 100),
       y = js_div (Math_floor (js_mul
                 (js_div (num (min (Store_get (settingsStore this) ''width'')
                                   (Store_get (settingsStore this) ''height'')))
                         (num (width (source sceneItem))))
                 (Fin 100))) (Fin 100) \<rparr>"
    by (rule alignItem_scale_eq)
next
  assume "0 < width (source sceneItem)"
  then show "x (scale (alignItem this sceneItem options)) \<noteq> NaN"
    by (simp add: alignItem_scale_eq scale_not_NaN)
next
  assume "0 < width (source sceneItem)"
  then show "y (scale (alignItem this sceneItem options)) \<noteq> NaN"
    by (simp add: alignItem_scale_eq scale_not_NaN)
next
  assume "Store_get (settingsStore this) ''width'' = 1920
        \<and> Store_get (settingsStore this) ''height'' = 1080
        \<and> width (source sceneItem) = 500"
  then show "scale (alignItem this sceneItem options)
          = \<lparr> x = to_double (216 / 100), y = to_double (216 / 100) \<rparr>"
    using scale_1080_500 by (simp add: alignItem_scale_eq to_double_54_25)
next
  assume "Store_get (settingsStore this) ''width'' = 1920
        \<and> Store_get (settingsStore this) ''height'' = 1080
        \<and> width (source sceneItem) = 640"
  then show "scale (alignItem this sceneItem options)
          = \<lparr> x = to_double (168 / 100), y = to_double (168 / 100) \<rparr>"
    using scale_1080_640 by (simp add: alignItem_scale_eq to_double_42_25)
qed

theorem alignItem_scale_witness:
  "scale (alignItem
       \<lparr> obsInitialized = True, previewWindow = False,
         settingsStore = (\<lambda>k. if k = ''width'' then 1920 else if k = ''height'' then 1080 else 0),
         trace = [] \<rparr>
       \<lparr> source = \<lparr> width = 500, height = 500 \<rparr>,
         scale = \<lparr> x = Fin 1, y = Fin 1 \<rparr>,
         position = \<lparr> x = Fin 0, y = Fin 0 \<rparr> \<rparr> ())
     = \<lparr> x = Fin (607985949695017 / 281474976710656),
         y = Fin (607985949695017 / 281474976710656) \<rparr>
   \<and> scale (alignItem
       \<lparr> obsInitialized = True, previewWindow = False,
         settingsStore = (\<lambda>k. if k = ''width'' then 1920 else if k = ''height'' then 1080 else 0),
         trace = [] \<rparr>
       \<lparr> source = \<lparr> width = 640, height = 360 \<rparr>,
         scale = \<lparr> x = Fin 1, y = Fin 1 \<rparr>,
         position = \<lparr> x = Fin 0, y = Fin 0 \<rparr> \<rparr> ())
     = \<lparr> x = Fin (7566047373982433 / 4503599627370496),
         y = Fin (7566047373982433 / 4503599627370496) \<rparr>"
proof -
  let ?obs = "\<lparr> obsInitialized = True, previewWindow = False,
         settingsStore = (\<lambda>k. if k = ''width'' then 1920 else if k = ''height'' then 1080 else (0::nat)),
         trace = [] \<rparr>"
  let ?a = "\<lparr> source = \<lparr> width = 500, height = 500 \<rparr>,
         scale = \<lparr> x = Fin 1, y = Fin 1 \<rparr>,
         position = \<lparr> x = Fin 0, y = Fin 0 \<rparr> \<rparr>"
  let ?b = "\<lparr> source = \<lparr> width = 640, height = 360 \<rparr>,
         scale = \<lparr> x = Fin 1, y = Fin 1 \<rparr>,
         position = \<lparr> x = Fin 0, y = Fin 0 \<rparr> \<rparr>"
  have c: "Store_get (settingsStore ?obs) ''width'' = 1920"
    "Store_get (settingsStore ?obs) ''height'' = 1080"
    by (simp_all add: Store_get_def)
  have "scale (alignItem ?obs ?a ())
      = \<lparr> x = to_double (216 / 100), y = to_double (216 / 100) \<rparr>"
    using alignItem_scale [of ?obs ?a "()", THEN conjunct2, THEN conjunct2, THEN conjunct1] c
    by simp
  moreover have "scale (alignItem ?obs ?b ())
      = \<lparr> x = to_double (168 / 100), y = to_double (168 / 100) \<rparr>"
    using alignItem_scale [of ?obs ?b "()", THEN conjunct2, THEN conjunct2, THEN conjunct2] c
    by simp
  ultimately show ?thesis
    by (simp add: to_double_54_25 to_double_42_25)
qed

lemma position_420:
  "js_div (js_sub (num 1920) (js_mul (num 500) (Fin (607985949695017 / 281474976710656)))) (Fin 2)
     = Fin 420"
  by (simp add: num_def to_double_1080_product to_double_840 to_double_420)

text \<open>
  C4: on a portrait canvas \<open>alignItem\<close> sets the position to \<open>x = 0\<close> and
  \<open>y = (canvasHeight - itemHeight * scale) / 2\<close>, on a landscape canvas to \<open>y = 0\<close> and
  \<open>x = (canvasWidth - itemWidth * scale) / 2\<close>, with the scale it has just set. On a
  canvas of 1080 by 1920 an item of 500 by 500 is put at \<open>x = 0\<close>, \<open>y = 420\<close>: scaled to
  1080 pixels, it is centred in the height.
\<close>

theorem alignItem_position:
  "(Store_get (settingsStore this) ''width'' < Store_get (settingsStore this) ''height'' \<longrightarrow>
      position (alignItem this sceneItem options) =
        \<lparr> x = Fin 0,
          y = js_div (js_sub (num (Store_get (settingsStore this) ''height''))
                        (js_mul (num (height (source sceneItem)))
                                (x (scale (alignItem this sceneItem options)))))
                (Fin 2) \<rparr>)
   \<and> (Store_get (settingsStore this) ''height'' < Store_get (settingsStore this) ''width'' \<longrightarrow>
      position (alignItem this sceneItem options) =
        \<lparr> x = js_div (js_sub (num (Store_get (settingsStore this) ''width''))
                        (js_mul (num (width (source sceneItem)))
                                (x (scale (alignItem this sceneItem options)))))
                (Fin 2),
          y = Fin 0 \<rparr>)
   \<and> (Store_get (settingsStore this) ''width'' = 1080
        \<and> Store_get (settingsStore this) ''height'' = 1920
        \<and> width (source sceneItem) = 500 \<and> height (source sceneItem) = 500 \<longrightarrow>
      position (alignItem this sceneItem options) = \<lparr> x = Fin 0, y = Fin 420 \<rparr>)"
proof (intro conjI impI)
  assume "Store_get (settingsStore this) ''width'' < Store_get (settingsStore this) ''height''"
  then show "position (alignItem this sceneItem options) =
        \<lparr> x = Fin 0,
          y = js_div (js_sub (num (Store_get (settingsStore this) ''height''))
                        (js_mul (num (height (source sceneItem)))
                                (x (scale (alignItem this sceneItem options)))))
                (Fin 2) \<rparr>"
    by (simp add: alignItem_def Let_def)
next
  assume "Store_get (settingsStore this) ''height'' < Store_get (settingsStore this) ''width''"
  then show "position (alignItem this sceneItem options) =
        \<lparr> x = js_div (js_sub (num (Store_get (settingsStore this) ''width''))
                        (js_mul (num (width (source sceneItem)))
                                (x (scale (alignItem this sceneItem options)))))
                (Fin 2),
          y = Fin 0 \<rparr>"
    by (simp add: alignItem_def Let_def)
next
  assume c: "Store_get (settingsStore this) ''width'' = 1080
        \<and> Store_get (settingsStore this) ''height'' = 1920
        \<and> width (source sceneItem) = 500 \<and> height (source sceneItem) = 500"
  then have "position (alignItem this sceneItem options) =
        \<lparr> x = Fin 0,
          y = js_div (js_sub (num 1920)
                 (js_mul (num 500)
                    (js_div (Math_floor (js_mul (js_div (num 1080) (num 500)) (Fin 100)))
                       (Fin 100))))
                (Fin 2) \<rparr>"
    by (simp add: alignItem_def Let_def)
  then show "position (alignItem this sceneItem options) = \<lparr> x = Fin 0, y = Fin 420 \<rparr>"
    by (simp only: scale_1080_500 position_420)
qed

theorem alignItem_position_witness:
  "position (alignItem
       \<lparr> obsInitialized = True, previewWindow = False,
         settingsStore = (\<lambda>k. if k = ''width'' then 1080 else if k = ''height'' then 1920 else 0),
         trace = [] \<rparr>
       \<lparr> source = \<lparr> width = 500, height = 500 \<rparr>,
         scale = \<lparr> x = Fin 1, y = Fin 1 \<rparr>,
         position = \<lparr> x = Fin 7, y = Fin 9 \<rparr> \<rparr> ())
     = \<lparr> x = Fin 0, y = Fin 420 \<rparr>
   \<and> position (alignItem
       \<lparr> obsInitialized = True, previewWindow = False,
         settingsStore = (\<lambda>k. if k = ''width'' then 1920 else if k = ''height'' then 1080 else 0),
         trace = [] \<rparr>
       \<lparr> source = \<lparr> width = 500, height = 500 \<rparr>,
         scale = \<lparr> x = Fin 1, y = Fin 1 \<rparr>,
         position = \<lparr> x = Fin 7, y = Fin 9 \<rparr> \<rparr> ())
     = \<lparr> x = Fin 420, y = Fin 0 \<rparr>"
proof -
  let ?portrait = "\<lparr> obsInitialized = True, previewWindow = False,
         settingsStore = (\<lambda>k. if k = ''width'' then 1080 else if k = ''height'' then 1920 else (0::nat)),
         trace = [] \<rparr>"
  let ?landscape = "\<lparr> obsInitialized = True, previewWindow = False,
         settingsStore = (\<lambda>k. if k = ''width'' then 1920 else if k = ''height'' then 1080 else (0::nat)),
         trace = [] \<rparr>"
  let ?a = "\<lparr> source = \<lparr> width = 500, height = 500 \<rparr>,
         scale = \<lparr> x = Fin 1, y = Fin 1 \<rparr>,
         position = \<lparr> x = Fin 7, y = Fin 9 \<rparr> \<rparr>"
  have p: "Store_get (settingsStore ?portrait) ''width'' = 1080"
    "Store_get (settingsStore ?portrait) ''height'' = 1920"
    and l: "Store_get (settingsStore ?landscape) ''width'' = 1920"
    "Store_get (settingsStore ?landscape) ''height'' = 1080"
    by (simp_all add: Store_get_def)
  have sc: "x (scale (alignItem ?landscape ?a ())) = Fin (607985949695017 / 281474976710656)"
    using scale_1080_500 by (simp add: alignItem_scale_eq Store_get_def)
  have "position (alignItem ?portrait ?a ()) = \<lparr> x = Fin 0, y = Fin 420 \<rparr>"
    using alignItem_position [of ?portrait ?a "()", THEN conjunct2, THEN conjunct2] p
    by simp
  moreover
  have "position (alignItem ?landscape ?a ()) =
        \<lparr> x = js_div (js_sub (num 1920)
                        (js_mul (num 500) (Fin (607985949695017 / 281474976710656))))
                (Fin 2),
          y = Fin 0 \<rparr>"
    using alignItem_position [of ?landscape ?a "()", THEN conjunct2, THEN conjunct1] l sc
    by simp
  ultimately show ?thesis
    by (simp only: position_420 simp_thms)
qed

text \<open>
  C5: on a square canvas \<open>alignItem\<close> changes the scale of the item and nothing else:
  the position, the source and every further field are those the item had.
\<close>

theorem alignItem_square_canvas:
  assumes "Store_get (settingsStore this) ''width'' = Store_get (settingsStore this) ''height''"
  shows "alignItem this sceneItem options
           = sceneItem\<lparr> scale := scale (alignItem this sceneItem options) \<rparr>
         \<and> position (alignItem this sceneItem options) = position sceneItem
         \<and> source (alignItem this sceneItem options) = source sceneItem
         \<and> ISceneItem.more (alignItem this sceneItem options) = ISceneItem.more sceneItem"
  using assms by (simp add: alignItem_def Let_def)

theorem alignItem_square_canvas_witness:
  "position (alignItem
       \<lparr> obsInitialized = True, previewWindow = False, settingsStore = (\<lambda>k. 1080), trace = [] \<rparr>
       \<lparr> source = \<lparr> width = 500, height = 300 \<rparr>,
         scale = \<lparr> x = Fin 1, y = Fin 1 \<rparr>,
         position = \<lparr> x = Fin 7, y = Fin 9 \<rparr> \<rparr> ())
     = \<lparr> x = Fin 7, y = Fin 9 \<rparr>
   \<and> source (alignItem
       \<lparr> obsInitialized = True, previewWindow = False, settingsStore = (\<lambda>k. 1080), trace = [] \<rparr>
       \<lparr> source = \<lparr> width = 500, height = 300 \<rparr>,
         scale = \<lparr> x = Fin 1, y = Fin 1 \<rparr>,
         position = \<lparr> x = Fin 7, y = Fin 9 \<rparr> \<rparr> ())
     = \<lparr> width = 500, height = 300 \<rparr>"
proof -
  let ?obs = "\<lparr> obsInitialized = True, previewWindow = False,
                 settingsStore = (\<lambda>k. 1080::nat), trace = [] \<rparr>"
  let ?a = "\<lparr> source = \<lparr> width = 500, height = 300 \<rparr>,
         scale = \<lparr> x = Fin 1, y = Fin 1 \<rparr>,
         position = \<lparr> x = Fin 7, y = Fin 9 \<rparr> \<rparr>"
  have sq: "Store_get (settingsStore ?obs) ''width'' = Store_get (settingsStore ?obs) ''height''"
    by (simp add: Store_get_def)
  from alignItem_square_canvas [of ?obs ?a "()", OF sq]
  show ?thesis by simp
qed

section \<open>Properties of the mobile service\<close>

lemma filter_other_uuid:
  "\<forall>d \<in> set ms. uuid (device d) \<noteq> a \<Longrightarrow> filter (\<lambda>d. uuid (device d) \<noteq> a) ms = ms"
  by (induction ms) auto

text \<open>
  C6, as the code has it: \<open>POST /connect\<close> with a device of UUID \<open>a\<close> followed by
  \<open>POST /disconnect\<close> with \<open>deviceId = a\<close> leaves the list it started from without its
  entries of UUID \<open>a\<close>; so it restores every list that held no entry of that UUID
  before, and the whole service state with it. \<open>POST /disconnect\<close> alone leaves a list
  with no entry of that UUID unchanged. Both requests are answered \<open>{success: true}\<close>.
\<close>

theorem connect_disconnect:
  assumes "uuid (device cbody) = a" and "deviceId dbody = a"
  shows "post_connect (Some cbody) this =
           (Inr [(''success'', JBool True)],
            this\<lparr> connectedMobiles := connectedMobiles this @ [\<lparr> device = device cbody \<rparr>] \<rparr>)
       \<and> post_disconnect (Some dbody) (snd (post_connect (Some cbody) this)) =
           (Inr [(''success'', JBool True)],
            this\<lparr> connectedMobiles :=
              filter (\<lambda>d. uuid (device d) \<noteq> a) (connectedMobiles this) \<rparr>)
       \<and> ((\<forall>d \<in> set (connectedMobiles this). uuid (device d) \<noteq> a) \<longrightarrow>
            post_disconnect (Some dbody) (snd (post_connect (Some cbody) this)) =
              (Inr [(''success'', JBool True)], this))
       \<and> ((\<forall>d \<in> set (connectedMobiles this). uuid (device d) \<noteq> a) \<longrightarrow>
            post_disconnect (Some dbody) this = (Inr [(''success'', JBool True)], this))"
proof (intro conjI impI)
  show "post_connect (Some cbody) this =
           (Inr [(''success'', JBool True)],
            this\<lparr> connectedMobiles := connectedMobiles this @ [\<lparr> device = device cbody \<rparr>] \<rparr>)"
    by (simp add: post_connect_def)
next
  show "post_disconnect (Some dbody) (snd (post_connect (Some cbody) this)) =
           (Inr [(''success'', JBool True)],
            this\<lparr> connectedMobiles :=
              filter (\<lambda>d. uuid (device d) \<noteq> a) (connectedMobiles this) \<rparr>)"
    using assms by (simp add: post_connect_def post_disconnect_def)
next
  assume "\<forall>d \<in> set (connectedMobiles this). uuid (device d) \<noteq> a"
  then have "filter (\<lambda>d. uuid (device d) \<noteq> a) (connectedMobiles this) = connectedMobiles this"
    by (rule filter_other_uuid)
  with assms show "post_disconnect (Some dbody) (snd (post_connect (Some cbody) this)) =
              (Inr [(''success'', JBool True)], this)"
    by (simp add: post_connect_def post_disconnect_def)
next
  assume "\<forall>d \<in> set (connectedMobiles this). uuid (device d) \<noteq> a"
  then have "filter (\<lambda>d. uuid (device d) \<noteq> a) (connectedMobiles this) = connectedMobiles this"
    by (rule filter_other_uuid)
  with assms show "post_disconnect (Some dbody) this = (Inr [(''success'', JBool True)], this)"
    by (simp add: post_disconnect_def)
qed

theorem connect_disconnect_witness:
  "post_disconnect (Some \<lparr> deviceId = ''A'' \<rparr>)
     (snd (post_connect
        (Some \<lparr> device = \<lparr> model = ''Pixel 4'', deviceType = ''Phone'', os = ''Android'',
                  osVersion = ''11'', sdkVersion = ''30'', language = ''en'',
                  manufacturer = ''Google'', uuid = ''A'', region = ''US'' \<rparr> \<rparr>)
        \<lparr> connectedMobiles =
            [\<lparr> device = \<lparr> model = ''iPhone'', deviceType = ''Phone'', os = ''iOS'',
                  osVersion = ''14'', sdkVersion = ''14'', language = ''nl'',
                  manufacturer = ''Apple'', uuid = ''B'', region = ''NL'' \<rparr> \<rparr>],
          expressRunning = True \<rparr>))
   = (Inr [(''success'', JBool True)],
      \<lparr> connectedMobiles =
            [\<lparr> device = \<lparr> model = ''iPhone'', deviceType = ''Phone'', os = ''iOS'',
                  osVersion = ''14'', sdkVersion = ''14'', language = ''nl'',
                  manufacturer = ''Apple'', uuid = ''B'', region = ''NL'' \<rparr> \<rparr>],
          expressRunning = True \<rparr>)
   \<and> post_disconnect (Some \<lparr> deviceId = ''A'' \<rparr>)
        \<lparr> connectedMobiles =
            [\<lparr> device = \<lparr> model = ''iPhone'', deviceType = ''Phone'', os = ''iOS'',
                  osVersion = ''14'', sdkVersion = ''14'', language = ''nl'',
                  manufacturer = ''Apple'', uuid = ''B'', region = ''NL'' \<rparr> \<rparr>],
          expressRunning = True \<rparr>
   = (Inr [(''success'', JBool True)],
      \<lparr> connectedMobiles =
            [\<lparr> device = \<lparr> model = ''iPhone'', deviceType = ''Phone'', os = ''iOS'',
                  osVersion = ''14'', sdkVersion = ''14'', language = ''nl'',
                  manufacturer = ''Apple'', uuid = ''B'', region = ''NL'' \<rparr> \<rparr>],
          expressRunning = True \<rparr>)"
proof -
  let ?devA = "\<lparr> model = ''Pixel 4'', deviceType = ''Phone'', os = ''Android'',
                  osVersion = ''11'', sdkVersion = ''30'', language = ''en'',
                  manufacturer = ''Google'', uuid = ''A'', region = ''US'' \<rparr>"
  let ?svc = "\<lparr> connectedMobiles =
            [\<lparr> device = \<lparr> model = ''iPhone'', deviceType = ''Phone'', os = ''iOS'',
                  osVersion = ''14'', sdkVersion = ''14'', language = ''nl'',
                  manufacturer = ''Apple'', uuid = ''B'', region = ''NL'' \<rparr> \<rparr>],
          expressRunning = True \<rparr>"
  have a: "uuid (device \<lparr> device = ?devA \<rparr>) = ''A''" and b: "deviceId \<lparr> deviceId = ''A'' \<rparr> = ''A''"
    by simp_all
  have absent: "\<forall>d \<in> set (connectedMobiles ?svc). uuid (device d) \<noteq> ''A''"
    by simp
  note t = connect_disconnect [of "\<lparr> device = ?devA \<rparr>" "''A''" "\<lparr> deviceId = ''A'' \<rparr>" ?svc, OF a b]
  from t [THEN conjunct2, THEN conjunct2, THEN conjunct1] absent
  have "post_disconnect (Some \<lparr> deviceId = ''A'' \<rparr>)
          (snd (post_connect (Some \<lparr> device = ?devA \<rparr>) ?svc))
        = (Inr [(''success'', JBool True)], ?svc)"
    by blast
  moreover
  from t [THEN conjunct2, THEN conjunct2, THEN conjunct2] absent
  have "post_disconnect (Some \<lparr> deviceId = ''A'' \<rparr>) ?svc = (Inr [(''success'', JBool True)], ?svc)"
    by blast
  ultimately show ?thesis by blast
qed

text \<open>
  The round trip does not restore a list that already holds the UUID: a device that
  connects a second time and then disconnects is removed altogether.
\<close>

theorem connect_disconnect_counterexample:
  "connectedMobiles
     (snd (post_disconnect (Some \<lparr> deviceId = ''A'' \<rparr>)
        (snd (post_connect
           (Some \<lparr> device = \<lparr> model = ''Pixel 4'', deviceType = ''Phone'', os = ''Android'',
                     osVersion = ''11'', sdkVersion = ''30'', language = ''en'',
                     manufacturer = ''Google'', uuid = ''A'', region = ''US'' \<rparr> \<rparr>)
           \<lparr> connectedMobiles =
               [\<lparr> device = \<lparr> model = ''Pixel 4'', deviceType = ''Phone'', os = ''Android'',
                     osVersion = ''11'', sdkVersion = ''30'', language = ''en'',
                     manufacturer = ''Google'', uuid = ''A'', region = ''US'' \<rparr> \<rparr>],
             expressRunning = True \<rparr>))))
   = []
   \<and> connectedMobiles
     (snd (post_disconnect (Some \<lparr> deviceId = ''A'' \<rparr>)
        (snd (post_connect
           (Some \<lparr> device = \<lparr> model = ''Pixel 4'', deviceType = ''Phone'', os = ''Android'',
                     osVersion = ''11'', sdkVersion = ''30'', language = ''en'',
                     manufacturer = ''Google'', uuid = ''A'', region = ''US'' \<rparr> \<rparr>)
           \<lparr> connectedMobiles =
               [\<lparr> device = \<lparr> model = ''Pixel 4'', deviceType = ''Phone'', os = ''Android'',
                     osVersion = ''11'', sdkVersion = ''30'', language = ''en'',
                     manufacturer = ''Google'', uuid = ''A'', region = ''US'' \<rparr> \<rparr>],
             expressRunning = True \<rparr>))))
   \<noteq> connectedMobiles
        \<lparr> connectedMobiles =
            [\<lparr> device = \<lparr> model = ''Pixel 4'', deviceType = ''Phone'', os = ''Android'',
                  osVersion = ''11'', sdkVersion = ''30'', language = ''en'',
                  manufacturer = ''Google'', uuid = ''A'', region = ''US'' \<rparr> \<rparr>],
          expressRunning = True \<rparr>"
  by (simp add: post_connect_def post_disconnect_def)

section \<open>Properties of setSetting\<close>

lemma parameters_forEach_fst:
  "fst (parameters_forEach parameter v ps old) =
     map (\<lambda>param. if name param = parameter then param\<lparr> currentValue := v \<rparr> else param) ps"
  by (induction ps arbitrary: old) (auto simp add: split_beta)

lemma parameters_forEach_snd:
  "snd (parameters_forEach parameter v ps old) =
     (if filter (\<lambda>param. name param = parameter) ps = [] then old
      else currentValue (last (filter (\<lambda>param. name param = parameter) ps)))"
  by (induction ps arbitrary: old) (auto simp add: split_beta)

lemma settings_forEach_fst:
  "fst (settings_forEach parameter v settings old) = with_value parameter v settings"
  by (induction settings arbitrary: old)
    (auto simp add: split_beta with_value_def parameters_forEach_fst)

lemma settings_forEach_snd:
  "snd (settings_forEach parameter v settings old) =
     (if parameters_named parameter settings = [] then old
      else currentValue (last (parameters_named parameter settings)))"
proof (induction settings arbitrary: old)
  case Nil
  then show ?case by (simp add: parameters_named_def)
next
  case (Cons subCategory rest)
  have named: "parameters_named parameter (subCategory # rest) =
      filter (\<lambda>param. name param = parameter) (parameters subCategory)
        @ parameters_named parameter rest"
    by (simp add: parameters_named_def)
  show ?case
    unfolding named
    by (simp add: split_beta Cons.IH parameters_forEach_snd)
qed

lemma setSetting_eq:
  assumes "OBS_settings_getSettings category = Some settings"
  shows "setSetting OBS_settings_getSettings StringToNumber this category parameter v =
     (if js_loose_eq StringToNumber v
           (if parameters_named parameter settings = [] then JUndefined
            else currentValue (last (parameters_named parameter settings)))
      then (Inr (), this)
      else (Inr (), emit [OBS_settings_saveSettings category (with_value parameter v settings)] this))"
proof -
  obtain settings' oldValue
    where run: "settings_forEach parameter v settings JUndefined = (settings', oldValue)"
    by (cases "settings_forEach parameter v settings JUndefined")
  from run have "settings' = with_value parameter v settings"
    using settings_forEach_fst [of parameter v settings JUndefined] by simp
  moreover from run have "oldValue =
      (if parameters_named parameter settings = [] then JUndefined
       else currentValue (last (parameters_named parameter settings)))"
    using settings_forEach_snd [of parameter v settings JUndefined] by simp
  ultimately show ?thesis
    using assms run by (simp add: setSetting_def)
qed

lemma js_loose_eq_same_type:
  assumes "js_typeof v = js_typeof u" and "v \<noteq> JNum NaN"
  shows "js_loose_eq tn v u \<longleftrightarrow> v = u"
  using assms by (cases v; cases u) (auto simp add: num_eq_def)

text \<open>
  C7: for a category that has a container, \<open>setSetting\<close> with a value equal to the
  parameter's current value saves nothing and leaves the wrapper as it was, and with a
  different value it calls \<open>OBS_settings_saveSettings\<close> exactly once, with the container
  in which the parameter has the new value. Equal is what \<open>==\<close> says; for two values of
  one type (no \<open>NaN\<close>) that is being the same value. Should several parameters of the
  category share the name, the current value is that of the last; should none have
  it, the current value is \<open>undefined\<close> and there is nothing to update in the container.
\<close>

theorem setSetting_persistence:
  assumes "OBS_settings_getSettings category = Some settings"
    and "current = (if parameters_named parameter settings = [] then JUndefined
                    else currentValue (last (parameters_named parameter settings)))"
  shows "(js_loose_eq StringToNumber v current \<longrightarrow>
            setSetting OBS_settings_getSettings StringToNumber this category parameter v
              = (Inr (), this))
       \<and> (\<not> js_loose_eq StringToNumber v current \<longrightarrow>
            setSetting OBS_settings_getSettings StringToNumber this category parameter v
              = (Inr (), this\<lparr> trace := trace this @
                  [OBS_settings_saveSettings category (with_value parameter v settings)] \<rparr>))
       \<and> (js_typeof v = js_typeof current \<and> v \<noteq> JNum NaN \<longrightarrow>
            (js_loose_eq StringToNumber v current \<longleftrightarrow> v = current))"
  using assms setSetting_eq [of OBS_settings_getSettings category settings StringToNumber this parameter v]
    js_loose_eq_same_type [of v current StringToNumber]
  by (simp add: emit_def)

theorem setSetting_persistence_witness:
  "setSetting
     (\<lambda>c. if c = ''Output'' then
        Some [\<lparr> nameSubCategory = ''Untitled'',
                parameters = [\<lparr> name = ''Mode'', currentValue = JStr ''Simple'' \<rparr>,
                              \<lparr> name = ''RecFormat'', currentValue = JStr ''flv'' \<rparr>] \<rparr>]
        else None)
     (\<lambda>s. NaN)
     \<lparr> obsInitialized = False, previewWindow = False, settingsStore = (\<lambda>k. 0), trace = [] \<rparr>
     ''Output'' ''Mode'' (JStr ''Simple'')
   = (Inr (),
      \<lparr> obsInitialized = False, previewWindow = False, settingsStore = (\<lambda>k. 0), trace = [] \<rparr>)
   \<and> setSetting
     (\<lambda>c. if c = ''Output'' then
        Some [\<lparr> nameSubCategory = ''Untitled'',
                parameters = [\<lparr> name = ''Mode'', currentValue = JStr ''Simple'' \<rparr>,
                              \<lparr> name = ''RecFormat'', currentValue = JStr ''flv'' \<rparr>] \<rparr>]
        else None)
     (\<lambda>s. NaN)
     \<lparr> obsInitialized = False, previewWindow = False, settingsStore = (\<lambda>k. 0), trace = [] \<rparr>
     ''Output'' ''RecFormat'' (JStr ''mkv'')
   = (Inr (),
      \<lparr> obsInitialized = False, previewWindow = False, settingsStore = (\<lambda>k. 0),
        trace = [OBS_settings_saveSettings ''Output''
          [\<lparr> nameSubCategory = ''Untitled'',
             parameters = [\<lparr> name = ''Mode'', currentValue = JStr ''Simple'' \<rparr>,
                           \<lparr> name = ''RecFormat'', currentValue = JStr ''mkv'' \<rparr>] \<rparr>]] \<rparr>)"
proof -
  let ?settings = "[\<lparr> nameSubCategory = ''Untitled'',
                parameters = [\<lparr> name = ''Mode'', currentValue = JStr ''Simple'' \<rparr>,
                              \<lparr> name = ''RecFormat'', currentValue = JStr ''flv'' \<rparr>] \<rparr>]"
  let ?get = "\<lambda>c. if c = ''Output'' then Some ?settings else None"
  let ?tn = "\<lambda>s::string. NaN"
  let ?obs = "\<lparr> obsInitialized = False, previewWindow = False,
                 settingsStore = (\<lambda>k. 0::nat), trace = [] \<rparr>"
  have g: "?get ''Output'' = Some ?settings" by simp
  have m: "parameters_named ''Mode'' ?settings = [\<lparr> name = ''Mode'', currentValue = JStr ''Simple'' \<rparr>]"
    and f: "parameters_named ''RecFormat'' ?settings
              = [\<lparr> name = ''RecFormat'', currentValue = JStr ''flv'' \<rparr>]"
    by (simp_all add: parameters_named_def)
  have w: "with_value ''RecFormat'' (JStr ''mkv'') ?settings =
      [\<lparr> nameSubCategory = ''Untitled'',
         parameters = [\<lparr> name = ''Mode'', currentValue = JStr ''Simple'' \<rparr>,
                       \<lparr> name = ''RecFormat'', currentValue = JStr ''mkv'' \<rparr>] \<rparr>]"
    by (simp add: with_value_def)
  have "setSetting ?get ?tn ?obs ''Output'' ''Mode'' (JStr ''Simple'') = (Inr (), ?obs)"
    using setSetting_persistence [of ?get "''Output''" ?settings "JStr ''Simple''" "''Mode''"
        ?tn "JStr ''Simple''" ?obs] g m
    by simp
  moreover
  have "setSetting ?get ?tn ?obs ''Output'' ''RecFormat'' (JStr ''mkv'')
      = (Inr (), ?obs\<lparr> trace := trace ?obs @
            [OBS_settings_saveSettings ''Output'' (with_value ''RecFormat'' (JStr ''mkv'') ?settings)] \<rparr>)"
    using setSetting_persistence [of ?get "''Output''" ?settings "JStr ''flv''" "''RecFormat''"
        ?tn "JStr ''mkv''" ?obs] g f
    by simp
  ultimately show ?thesis
    unfolding w by simp
qed

section \<open>Properties of initOBS\<close>

lemma digit_char_cases:
  assumes "(d::nat) < 10"
  shows "d = 0 \<or> d = 1 \<or> d = 2 \<or> d = 3 \<or> d = 4 \<or> d = 5 \<or> d = 6 \<or> d = 7 \<or> d = 8 \<or> d = 9"
  using assms by arith

lemma digit_char_values:
  "digit_char 0 = CHR ''0''" "digit_char 1 = CHR ''1''" "digit_char 2 = CHR ''2''"
  "digit_char 3 = CHR ''3''" "digit_char 4 = CHR ''4''" "digit_char 5 = CHR ''5''"
  "digit_char 6 = CHR ''6''" "digit_char 7 = CHR ''7''" "digit_char 8 = CHR ''8''"
  "digit_char 9 = CHR ''9''" "digit_char (Suc 0) = CHR ''1''"
  by (simp_all add: digit_char_def)

lemma digit_char_2: "d < 10 \<Longrightarrow> digit_char d = CHR ''2'' \<longleftrightarrow> d = 2"
  using digit_char_cases [of d] by (auto simp add: digit_char_values)

lemma digit_char_5: "d < 10 \<Longrightarrow> digit_char d = CHR ''5'' \<longleftrightarrow> d = 5"
  using digit_char_cases [of d] by (auto simp add: digit_char_values)

lemma digit_char_not_minus:
  "d < 10 \<Longrightarrow> digit_char d \<noteq> CHR ''-''" "d < 10 \<Longrightarrow> CHR ''-'' \<noteq> digit_char d"
  using digit_char_cases [of d] by (auto simp add: digit_char_values)

lemma digits_of_small: "n < 10 \<Longrightarrow> digits_of n = [digit_char n]"
  by (subst digits_of.simps) simp

lemma digits_of_large: "\<not> n < 10 \<Longrightarrow> digits_of n = digits_of (n div 10) @ [digit_char (n mod 10)]"
  by (subst digits_of.simps) simp

lemma digits_of_not_Nil: "digits_of n \<noteq> []"
  by (subst digits_of.simps) simp

lemma digits_of_no_minus: "CHR ''-'' \<notin> set (digits_of n)"
proof (induction n rule: digits_of.induct)
  case (1 n)
  show ?case
  proof (cases "n < 10")
    case True
    then show ?thesis by (simp add: digits_of_small digit_char_not_minus)
  next
    case False
    with 1 show ?thesis by (simp add: digits_of_large digit_char_not_minus)
  qed
qed

lemma digits_of_single: "digits_of n = [c] \<Longrightarrow> n < 10 \<and> digit_char n = c"
proof (cases "n < 10")
  case True
  assume "digits_of n = [c]"
  with True show ?thesis by (simp add: digits_of_small)
next
  case False
  assume "digits_of n = [c]"
  with False have "digits_of (n div 10) @ [digit_char (n mod 10)] = [c]"
    by (simp add: digits_of_large)
  then have "digits_of (n div 10) = []" by simp
  with digits_of_not_Nil show ?thesis by blast
qed

lemma number_toString_minus_digit:
  assumes "number_toString i = [CHR ''-'', c]"
  shows "i < 0 \<and> nat (- i) < 10 \<and> digit_char (nat (- i)) = c"
proof (cases "i < 0")
  case True
  with assms have "digits_of (nat (- i)) = [c]" by (simp add: number_toString_def)
  then have "nat (- i) < 10 \<and> digit_char (nat (- i)) = c" by (rule digits_of_single)
  with True show ?thesis by simp
next
  case False
  with assms have "digits_of (nat i) = [CHR ''-'', c]" by (simp add: number_toString_def)
  then have "CHR ''-'' \<in> set (digits_of (nat i))" by simp
  with digits_of_no_minus show ?thesis by blast
qed

lemma number_toString_minus_2: "number_toString i = ''-2'' \<longleftrightarrow> i = - 2"
proof
  assume "number_toString i = ''-2''"
  then have "i < 0 \<and> nat (- i) < 10 \<and> digit_char (nat (- i)) = CHR ''2''"
    by (rule number_toString_minus_digit)
  then show "i = - 2" by (auto simp add: digit_char_2)
next
  assume "i = - 2"
  then show "number_toString i = ''-2''"
    by (simp add: number_toString_def digits_of_small digit_char_values)
qed

lemma number_toString_minus_5: "number_toString i = ''-5'' \<longleftrightarrow> i = - 5"
proof
  assume "number_toString i = ''-5''"
  then have "i < 0 \<and> nat (- i) < 10 \<and> digit_char (nat (- i)) = CHR ''5''"
    by (rule number_toString_minus_digit)
  then show "i = - 5" by (auto simp add: digit_char_5)
next
  assume "i = - 5"
  then show "number_toString i = ''-5''"
    by (simp add: number_toString_def digits_of_small digit_char_values)
qed

lemma errorMessage_of_eq:
  "errorMessage_of i =
     (if i = - 2 then
        ''DirectX could not be found on your system. Please install the latest version of DirectX for your machine here <https://www.microsoft.com/en-us/download/details.aspx?id=35?> and try again.''
      else if i = - 5 then
        ''Failed to initialize OBS. Your video drivers may be out of date, or Streamlabs OBS may not be supported on your system.''
      else ''An unknown error #'' @ number_toString i @ '' was encountered while initializing OBS.'')"
proof -
  have look: "map_of errorReasons (number_toString i) =
      (if i = - 2 then Some (snd (errorReasons ! 0))
       else if i = - 5 then Some (snd (errorReasons ! 1)) else None)"
    using number_toString_minus_2 [of i] number_toString_minus_5 [of i]
    unfolding errorReasons_def by (cases "i = - 2"; cases "i = - 5") simp_all
  show ?thesis
    unfolding errorMessage_of_def look by (simp add: errorReasons_def)
qed

lemma emit_emit: "emit evs (emit evs' this) = emit (evs' @ evs) this"
  by (simp add: emit_def)

lemma obsInitialized_emit: "obsInitialized (emit evs this) = obsInitialized this"
  by (simp add: emit_def)

lemma shutdown_not_initialized:
  "\<not> obsInitialized this \<Longrightarrow>
     shutdown throws this = (Inr False, emit [Console_debug ''OBS is already shut down!''] this)"
  by (simp add: shutdown_def)

lemma shutdown_returns:
  "throws ''OBS_service_removeCallback'' = None \<Longrightarrow> throws ''IPC.disconnect'' = None \<Longrightarrow>
     \<exists>b. fst (shutdown throws this) = Inr b"
  by (auto simp add: shutdown_def Let_def)

lemma initOBS_failure:
  assumes "initResult \<noteq> 0"
  shows "initOBS initResult throws this =
     (case shutdown throws
             (emit [Console_debug ''Initializing OBS...'',
                    IPC_host ''obs-studio-node-example'',
                    SetWorkingDirectory,
                    OBS_API_initAPI,
                    Console_error ''OBS init failure'' (errorMessage_of initResult)] this) of
        (Inl e, this3) \<Rightarrow> (Inl e, this3)
      | (Inr b, this3) \<Rightarrow> (Inl (Error (errorMessage_of initResult)), this3))"
  using assms by (simp add: initOBS_def Let_def emit_emit)

text \<open>
  C9: for a result code other than 0, \<open>initOBS\<close> throws, and what it leaves behind is
  what \<open>shutdown\<close> leaves after the failure was logged. Unless \<open>shutdown\<close> itself throws
  (it cannot while the wrapper is not yet initialized, as during construction), the
  error carries the message for the code: the DirectX text for \<open>-2\<close>, the driver text
  for \<open>-5\<close>, and for every other code the generic text with the code in it. For the
  code 0 no error is raised and the output signals are connected.
\<close>

theorem initOBS_result:
  "(initResult \<noteq> 0 \<longrightarrow>
      (\<exists>e this'. initOBS initResult throws this = (Inl e, this'))
      \<and> snd (initOBS initResult throws this) =
          snd (shutdown throws
                 (emit [Console_debug ''Initializing OBS...'',
                        IPC_host ''obs-studio-node-example'',
                        SetWorkingDirectory,
                        OBS_API_initAPI,
                        Console_error ''OBS init failure'' (errorMessage_of initResult)] this))
      \<and> (throws ''OBS_service_removeCallback'' = None \<and> throws ''IPC.disconnect'' = None \<longrightarrow>
            fst (initOBS initResult throws this) = Inl (Error (errorMessage_of initResult)))
      \<and> (\<not> obsInitialized this \<longrightarrow>
            initOBS initResult throws this =
              (Inl (Error (errorMessage_of initResult)),
               emit [Console_debug ''Initializing OBS...'',
                     IPC_host ''obs-studio-node-example'',
                     SetWorkingDirectory,
                     OBS_API_initAPI,
                     Console_error ''OBS init failure'' (errorMessage_of initResult),
                     Console_debug ''OBS is already shut down!''] this)))
   \<and> errorMessage_of (- 2) =
        ''DirectX could not be found on your system. Please install the latest version of DirectX for your machine here <https://www.microsoft.com/en-us/download/details.aspx?id=35?> and try again.''
   \<and> errorMessage_of (- 5) =
        ''Failed to initialize OBS. Your video drivers may be out of date, or Streamlabs OBS may not be supported on your system.''
   \<and> (initResult \<noteq> - 2 \<and> initResult \<noteq> - 5 \<longrightarrow>
        errorMessage_of initResult =
          ''An unknown error #'' @ number_toString initResult
            @ '' was encountered while initializing OBS.'')
   \<and> initOBS 0 throws this =
        (Inr (),
         emit [Console_debug ''Initializing OBS...'',
               IPC_host ''obs-studio-node-example'',
               SetWorkingDirectory,
               OBS_API_initAPI,
               OBS_service_connectOutputSignals,
               Console_debug ''OBS initialized''] this)"
proof (intro conjI impI)
  let ?logged = "emit [Console_debug ''Initializing OBS...'',
                        IPC_host ''obs-studio-node-example'',
                        SetWorkingDirectory,
                        OBS_API_initAPI,
                        Console_error ''OBS init failure'' (errorMessage_of initResult)] this"
  {
    assume nz: "initResult \<noteq> 0"
    obtain r this3 where sd: "shutdown throws ?logged = (r, this3)"
      by (cases "shutdown throws ?logged")
    show "\<exists>e this'. initOBS initResult throws this = (Inl e, this')"
      using initOBS_failure [OF nz, of throws this] sd by (cases r) simp_all
    show "snd (initOBS initResult throws this) = snd (shutdown throws ?logged)"
      using initOBS_failure [OF nz, of throws this] sd by (cases r) simp_all
    {
      assume "throws ''OBS_service_removeCallback'' = None \<and> throws ''IPC.disconnect'' = None"
      then obtain b where "fst (shutdown throws ?logged) = Inr b"
        using shutdown_returns [of throws ?logged] by blast
      with sd show "fst (initOBS initResult throws this) = Inl (Error (errorMessage_of initResult))"
        using initOBS_failure [OF nz, of throws this] by simp
    }
    {
      assume "\<not> obsInitialized this"
      then have "shutdown throws ?logged =
          (Inr False, emit [Console_debug ''OBS is already shut down!''] ?logged)"
        by (simp add: shutdown_not_initialized obsInitialized_emit)
      then show "initOBS initResult throws this =
              (Inl (Error (errorMessage_of initResult)),
               emit [Console_debug ''Initializing OBS...'',
                     IPC_host ''obs-studio-node-example'',
                     SetWorkingDirectory,
                     OBS_API_initAPI,
                     Console_error ''OBS init failure'' (errorMessage_of initResult),
                     Console_debug ''OBS is already shut down!''] this)"
        using initOBS_failure [OF nz, of throws this] by (simp add: emit_emit)
    }
  }
  show "errorMessage_of (- 2) =
        ''DirectX could not be found on your system. Please install the latest version of DirectX for your machine here <https://www.microsoft.com/en-us/download/details.aspx?id=35?> and try again.''"
    by (simp add: errorMessage_of_eq)
  show "errorMessage_of (- 5) =
        ''Failed to initialize OBS. Your video drivers may be out of date, or Streamlabs OBS may not be supported on your system.''"
    by (simp add: errorMessage_of_eq)
  {
    assume "initResult \<noteq> - 2 \<and> initResult \<noteq> - 5"
    then show "errorMessage_of initResult =
          ''An unknown error #'' @ number_toString initResult
            @ '' was encountered while initializing OBS.''"
      by (simp add: errorMessage_of_eq)
  }
  show "initOBS 0 throws this =
        (Inr (),
         emit [Console_debug ''Initializing OBS...'',
               IPC_host ''obs-studio-node-example'',
               SetWorkingDirectory,
               OBS_API_initAPI,
               OBS_service_connectOutputSignals,
               Console_debug ''OBS initialized''] this)"
    by (simp add: initOBS_def Let_def emit_emit)
qed

theorem initOBS_result_witness:
  "fst (initOBS (- 2) (\<lambda>c. None)
          \<lparr> obsInitialized = False, previewWindow = False, settingsStore = (\<lambda>k. 0), trace = [] \<rparr>)
     = Inl (Error ''DirectX could not be found on your system. Please install the latest version of DirectX for your machine here <https://www.microsoft.com/en-us/download/details.aspx?id=35?> and try again.'')
   \<and> fst (initOBS (- 5) (\<lambda>c. None)
          \<lparr> obsInitialized = False, previewWindow = False, settingsStore = (\<lambda>k. 0), trace = [] \<rparr>)
     = Inl (Error ''Failed to initialize OBS. Your video drivers may be out of date, or Streamlabs OBS may not be supported on your system.'')
   \<and> initOBS 7 (\<lambda>c. None)
          \<lparr> obsInitialized = False, previewWindow = False, settingsStore = (\<lambda>k. 0), trace = [] \<rparr>
     = (Inl (Error ''An unknown error #7 was encountered while initializing OBS.''),
        \<lparr> obsInitialized = False, previewWindow = False, settingsStore = (\<lambda>k. 0),
          trace = [Console_debug ''Initializing OBS...'',
                   IPC_host ''obs-studio-node-example'',
                   SetWorkingDirectory,
                   OBS_API_initAPI,
                   Console_error ''OBS init failure''
                     ''An unknown error #7 was encountered while initializing OBS.'',
                   Console_debug ''OBS is already shut down!''] \<rparr>)"
proof -
  let ?obs = "\<lparr> obsInitialized = False, previewWindow = False,
                 settingsStore = (\<lambda>k. 0::nat), trace = [] \<rparr>"
  let ?quiet = "\<lambda>c::string. (None :: string option)"
  have seven: "number_toString 7 = ''7''"
    by (simp add: number_toString_def digits_of_small digit_char_values)
  note a = initOBS_result [of "- 2" ?quiet ?obs]
  note b = initOBS_result [of "- 5" ?quiet ?obs]
  note c = initOBS_result [of 7 ?quiet ?obs]
  from a have "errorMessage_of (- 2) =
        ''DirectX could not be found on your system. Please install the latest version of DirectX for your machine here <https://www.microsoft.com/en-us/download/details.aspx?id=35?> and try again.''"
    by blast
  moreover from a have "fst (initOBS (- 2) ?quiet ?obs) = Inl (Error (errorMessage_of (- 2)))"
    by simp
  ultimately have 1: "fst (initOBS (- 2) ?quiet ?obs) = Inl (Error ''DirectX could not be found on your system. Please install the latest version of DirectX for your machine here <https://www.microsoft.com/en-us/download/details.aspx?id=35?> and try again.'')"
    by simp
  from b have "errorMessage_of (- 5) =
        ''Failed to initialize OBS. Your video drivers may be out of date, or Streamlabs OBS may not be supported on your system.''"
    by blast
  moreover from b have "fst (initOBS (- 5) ?quiet ?obs) = Inl (Error (errorMessage_of (- 5)))"
    by simp
  ultimately have 2: "fst (initOBS (- 5) ?quiet ?obs) = Inl (Error ''Failed to initialize OBS. Your video drivers may be out of date, or Streamlabs OBS may not be supported on your system.'')"
    by simp
  from c have m: "errorMessage_of 7 = ''An unknown error #7 was encountered while initializing OBS.''"
    using seven by simp
  from c have "initOBS 7 ?quiet ?obs =
              (Inl (Error (errorMessage_of 7)),
               emit [Console_debug ''Initializing OBS...'',
                     IPC_host ''obs-studio-node-example'',
                     SetWorkingDirectory,
                     OBS_API_initAPI,
                     Console_error ''OBS init failure'' (errorMessage_of 7),
                     Console_debug ''OBS is already shut down!''] ?obs)"
    by simp
  then have 3: "initOBS 7 ?quiet ?obs =
     (Inl (Error ''An unknown error #7 was encountered while initializing OBS.''),
        \<lparr> obsInitialized = False, previewWindow = False, settingsStore = (\<lambda>k. 0),
          trace = [Console_debug ''Initializing OBS...'',
                   IPC_host ''obs-studio-node-example'',
                   SetWorkingDirectory,
                   OBS_API_initAPI,
                   Console_error ''OBS init failure''
                     ''An unknown error #7 was encountered while initializing OBS.'',
                   Console_debug ''OBS is already shut down!''] \<rparr>)"
    unfolding m by (simp add: emit_def)
  from 1 2 3 show ?thesis by blast
qed

end
